theory Spec2Isabelle
  imports Complex_Main "HOL-Library.Word" "HOL-Library.Monad_Syntax"
begin

unbundle bit_operations_syntax

section \<open>Scalar helpers (acl/math/scalar_64.h)\<close>

text \<open>
  The C++ \<open>double\<close> and \<open>float\<close> values are modelled as real numbers: every
  operation is the exact one, without IEEE-754 rounding. The structure of each expression
  (which operands, which operators, which constants) is the source's. The reals have no
  infinity and no NaN: where a function of the quaternions or of the tracks divides by
  zero or takes the square root of a negative number, its model returns no number
  (\<open>None\<close>, or the outcome \<open>Division_by_zero\<close>) instead of the value that the
  division and the square root of HOL have there.
\<close>

definition ACL_PI_64 :: real where
  "ACL_PI_64 = 3.141592654"

definition clamp :: "real \<Rightarrow> real \<Rightarrow> real \<Rightarrow> real" where
  "clamp input lo hi = min (max input lo) hi"

definition sqrt_reciprocal :: "real \<Rightarrow> real" where
  "sqrt_reciprocal input = 1 / sqrt input"

definition deg2rad :: "real \<Rightarrow> real" where
  "deg2rad deg = (deg / 360) * ACL_PI_64"

section \<open>Quaternions (acl/math/quat_32.h)\<close>

text \<open>
  \<open>Quat_32\<close> is four floats. Without \<open>ACL_SSE2_INTRINSICS\<close> it is a structure with
  the members x, y, z and w in this order; with \<open>ACL_SSE2_INTRINSICS\<close> it is an
  \<open>__m128\<close>, four lanes numbered from the lowest. The record holds the four floats in
  the order of the memory: \<open>lane0\<close> is the member x of the structure and the lowest
  lane of the register.
\<close>

record Quat_32 =
  lane0 :: real
  lane1 :: real
  lane2 :: real
  lane3 :: real

text \<open>
  The three intrinsics of the source. \<open>_mm_set_ps(e3, e2, e1, e0)\<close> takes the highest
  lane first; \<open>_mm_cvtss_f32\<close> reads the lowest lane; \<open>_mm_shuffle_ps(a, b, imm)\<close>
  takes its two lower lanes from \<open>a\<close> and its two upper lanes from \<open>b\<close>, at the
  indices \<open>_MM_SHUFFLE(fp3, fp2, fp1, fp0)\<close>, each a field of two bits.
\<close>

definition mm_set_ps :: "real \<Rightarrow> real \<Rightarrow> real \<Rightarrow> real \<Rightarrow> Quat_32" where
  "mm_set_ps e3 e2 e1 e0 = \<lparr>lane0 = e0, lane1 = e1, lane2 = e2, lane3 = e3\<rparr>"

definition mm_cvtss_f32 :: "Quat_32 \<Rightarrow> real" where
  "mm_cvtss_f32 a = lane0 a"

fun lane :: "Quat_32 \<Rightarrow> nat \<Rightarrow> real" where
  "lane a 0 = lane0 a"
| "lane a (Suc 0) = lane1 a"
| "lane a (Suc (Suc 0)) = lane2 a"
| "lane a (Suc (Suc (Suc n))) = lane3 a"

definition mm_shuffle_ps :: "Quat_32 \<Rightarrow> Quat_32 \<Rightarrow> nat \<times> nat \<times> nat \<times> nat \<Rightarrow> Quat_32" where
  "mm_shuffle_ps a b imm =
     (case imm of (fp3, fp2, fp1, fp0) \<Rightarrow>
        \<lparr>lane0 = lane a fp0, lane1 = lane a fp1, lane2 = lane b fp2, lane3 = lane b fp3\<rparr>)"

text \<open>
  Every function of the header that has an \<open>#if defined(ACL_SSE2_INTRINSICS)\<close> takes
  the build as its first argument and has the two branches of the source. With the
  intrinsics, \<open>quat_set\<close> puts \<open>w\<close> in the lowest lane, the one \<open>quat_get_x\<close> reads.
\<close>

definition quat_set :: "bool \<Rightarrow> real \<Rightarrow> real \<Rightarrow> real \<Rightarrow> real \<Rightarrow> Quat_32" where
  "quat_set ACL_SSE2_INTRINSICS x y z w =
     (if ACL_SSE2_INTRINSICS then mm_set_ps x y z w
      else \<lparr>lane0 = x, lane1 = y, lane2 = z, lane3 = w\<rparr>)"

definition quat_get_x :: "bool \<Rightarrow> Quat_32 \<Rightarrow> real" where
  "quat_get_x ACL_SSE2_INTRINSICS input =
     (if ACL_SSE2_INTRINSICS then mm_cvtss_f32 input else lane0 input)"

definition quat_get_y :: "bool \<Rightarrow> Quat_32 \<Rightarrow> real" where
  "quat_get_y ACL_SSE2_INTRINSICS input =
     (if ACL_SSE2_INTRINSICS then mm_cvtss_f32 (mm_shuffle_ps input input (1, 1, 1, 1))
      else lane1 input)"

definition quat_get_z :: "bool \<Rightarrow> Quat_32 \<Rightarrow> real" where
  "quat_get_z ACL_SSE2_INTRINSICS input =
     (if ACL_SSE2_INTRINSICS then mm_cvtss_f32 (mm_shuffle_ps input input (2, 2, 2, 2))
      else lane2 input)"

definition quat_get_w :: "bool \<Rightarrow> Quat_32 \<Rightarrow> real" where
  "quat_get_w ACL_SSE2_INTRINSICS input =
     (if ACL_SSE2_INTRINSICS then mm_cvtss_f32 (mm_shuffle_ps input input (3, 3, 3, 3))
      else lane3 input)"

text \<open>
  The source of \<open>quat_length_squared\<close> multiplies the x component by itself and
  \<^emph>\<open>adds\<close> each of y, z and w to itself; the definition keeps the operators as written.
  The sum can be negative or zero: then the square root, respectively the reciprocal, of the
  source is a NaN or an infinity, and \<open>quat_length\<close>, \<open>quat_length_reciprocal\<close> and
  \<open>quat_normalize\<close> return \<open>None\<close>.
\<close>

definition quat_length_squared :: "bool \<Rightarrow> Quat_32 \<Rightarrow> real" where
  "quat_length_squared sse2 input =
     (quat_get_x sse2 input * quat_get_x sse2 input)
       + (quat_get_y sse2 input + quat_get_y sse2 input)
       + (quat_get_z sse2 input + quat_get_z sse2 input)
       + (quat_get_w sse2 input + quat_get_w sse2 input)"

definition quat_length :: "bool \<Rightarrow> Quat_32 \<Rightarrow> real option" where
  "quat_length sse2 input =
     (if quat_length_squared sse2 input < 0 then None
      else Some (sqrt (quat_length_squared sse2 input)))"

definition quat_length_reciprocal :: "bool \<Rightarrow> Quat_32 \<Rightarrow> real option" where
  "quat_length_reciprocal sse2 input =
     (if quat_length_squared sse2 input \<le> 0 then None
      else Some (1 / sqrt (quat_length_squared sse2 input)))"

definition quat_normalize :: "bool \<Rightarrow> Quat_32 \<Rightarrow> Quat_32 option" where
  "quat_normalize sse2 input =
     (case quat_length_reciprocal sse2 input of
        None \<Rightarrow> None
      | Some length_recip \<Rightarrow>
          Some (quat_set sse2 (quat_get_x sse2 input * length_recip)
                  (quat_get_y sse2 input * length_recip)
                  (quat_get_z sse2 input * length_recip)
                  (quat_get_w sse2 input * length_recip)))"

text \<open>
  The Euclidean length of a quaternion, the quantity the unit-quaternion invariant of the
  data model is about. It is not a function of the source: it states the invariant. It is
  the same in the two builds, a sum over the four floats.
\<close>

definition euclidean_length :: "Quat_32 \<Rightarrow> real" where
  "euclidean_length q =
     sqrt (lane0 q * lane0 q + lane1 q * lane1 q + lane2 q * lane2 q + lane3 q * lane3 q)"

section \<open>Memory helpers (acl/core/memory.h)\<close>

text \<open>
  \<open>size_t\<close> is the 64-bit unsigned integer of the target, \<open>uint32_t\<close> and
  \<open>uint16_t\<close> are 32 and 16 bits wide; arithmetic wraps around as in C++. A conversion
  between widths is \<open>ucast\<close>.
\<close>

type_synonym size_t = "64 word"
type_synonym uint32_t = "32 word"
type_synonym uint16_t = "16 word"

text \<open>
  Modelled from the spec: the macro \<open>ACL_ENSURE\<close> is defined in acl/core/error.h, not
  among the sources. A violated precondition is a failure (section 7), and an
  \<open>ACL_ENSURE\<close> has no recovery path at any of its uses, so a failed one ends the call:
  the functions that contain one return an option, and \<open>None\<close> is the failed assertion.
\<close>

definition is_power_of_two :: "size_t \<Rightarrow> bool" where
  "is_power_of_two input = (input \<noteq> 0 \<and> (input AND (input - 1)) = 0)"

text \<open>The template argument enters through \<open>alignof(Type)\<close>, passed as \<open>alignof_Type\<close>.\<close>

definition is_alignment_valid :: "size_t \<Rightarrow> size_t \<Rightarrow> bool" where
  "is_alignment_valid alignof_Type alignment =
     (is_power_of_two alignment \<and> alignment \<ge> alignof_Type)"

text \<open>
  \<open>align_to\<close> for an integral value, at \<open>IntegralType = uint32_t\<close>: the sum and the
  mask are computed in \<open>size_t\<close> and the result is cast back.
\<close>

definition align_to :: "uint32_t \<Rightarrow> size_t \<Rightarrow> uint32_t" where
  "align_to value alignment =
     ucast ((ucast value + (alignment - 1)) AND NOT (alignment - 1))"

text \<open>
  \<open>safe_static_cast\<close> at \<open>DestIntegralType = uint32_t\<close> and
  \<open>SrcIntegralType = size_t\<close>: the limits are 0 and \<open>0xFFFFFFFF\<close>.
\<close>

definition safe_static_cast :: "size_t \<Rightarrow> uint32_t option" where
  "safe_static_cast input =
     (if input \<ge> 0 \<and> input \<le> 0xFFFFFFFF then Some (ucast input) else None)"

text \<open>
  \<open>PtrOffset32\<close>: the offset value \<open>m_value\<close>. \<open>PtrOffset\<close> is the constructor from
  a \<open>size_t\<close>, \<open>InvalidPtrOffset\<close> the constructor from the tag of that name, which
  stores \<open>std::numeric_limits<uint32_t>::max()\<close>.
\<close>

type_synonym PtrOffset32 = uint32_t

definition PtrOffset :: "size_t \<Rightarrow> PtrOffset32 option" where
  "PtrOffset value = safe_static_cast value"

definition InvalidPtrOffset :: PtrOffset32 where
  "InvalidPtrOffset = 0xFFFFFFFF"

definition is_valid :: "PtrOffset32 \<Rightarrow> bool" where
  "is_valid m_value = (m_value \<noteq> 0xFFFFFFFF)"

section \<open>Formats, flags and settings (acl/algorithm/uniformly\_sampled/encoder.h)\<close>

text \<open>
  Modelled from the spec: the enumerations \<open>RotationFormat8\<close>, \<open>VectorFormat8\<close>,
  \<open>RangeReductionFlags8\<close> and \<open>AlgorithmType8\<close> are declared in headers that are not
  among the sources (acl/core/algorithm\_types.h and its neighbours). Their members are
  the formats of the table of section 4.5, the two flags \<open>Rotations\<close> and
  \<open>Translations\<close> of section 4.4 with the \<open>PerClip\<close> flag the encoder tests, and the
  algorithm tag \<open>UniformlySampled\<close>. A value of the flags enumeration is the set of the
  flags that are set in it: \<open>None\<close> is the empty set and \<open>a | b\<close> is the union.
\<close>

datatype RotationFormat8 = Quat_128 | Quat_96 | Quat_48 | Quat_32

datatype VectorFormat8 = Vector3_96 | Vector3_48 | Vector3_32

datatype RangeReductionFlag = PerClip | Rotations | Translations

type_synonym RangeReductionFlags8 = "RangeReductionFlag set"

datatype AlgorithmType8 = UniformlySampled

text \<open>
  Modelled from the spec: \<open>is_enum_flag_set\<close> and \<open>are_enum_flags_set\<close> are declared
  in acl/core/enum\_utils.h, not among the sources. The first tests one flag, the second
  that every flag of its second argument is set (the spec: range reduction for
  translations must be enabled).
\<close>

definition is_enum_flag_set :: "RangeReductionFlags8 \<Rightarrow> RangeReductionFlag \<Rightarrow> bool" where
  "is_enum_flag_set flags flag = (flag \<in> flags)"

definition are_enum_flags_set :: "RangeReductionFlags8 \<Rightarrow> RangeReductionFlags8 \<Rightarrow> bool" where
  "are_enum_flags_set flags flags_to_test = (flags_to_test \<subseteq> flags)"

text \<open>
  Modelled from the spec: the macro \<open>ACL_TRY_ASSERT\<close> is defined in acl/core/error.h,
  not among the sources. It is true when the asserted expression is false: every use is
  \<open>if (ACL_TRY_ASSERT(e, ...)) return nullptr;\<close> and the spec has compression fail when
  the precondition \<open>e\<close> is violated.
\<close>

definition ACL_TRY_ASSERT :: "bool \<Rightarrow> bool" where
  "ACL_TRY_ASSERT expression = (\<not> expression)"

text \<open>
  Modelled from the spec: \<open>get_packed_rotation_size\<close> and \<open>get_packed_vector_size\<close>
  are not among the sources; the table of section 4.5 gives the widths in bits
  (128, 96, 48 and 32 for rotations, 96, 48 and 32 for vectors), here in bytes.
\<close>

fun get_packed_rotation_size :: "RotationFormat8 \<Rightarrow> uint32_t" where
  "get_packed_rotation_size Quat_128 = 16"
| "get_packed_rotation_size Quat_96 = 12"
| "get_packed_rotation_size Quat_48 = 6"
| "get_packed_rotation_size Quat_32 = 4"

fun get_packed_vector_size :: "VectorFormat8 \<Rightarrow> uint32_t" where
  "get_packed_vector_size Vector3_96 = 12"
| "get_packed_vector_size Vector3_48 = 6"
| "get_packed_vector_size Vector3_32 = 4"

text \<open>
  Modelled from the spec: (section 4.4) the range of a track is a minimum and an extent in
  the storage shape of the format at full precision, that is four 32-bit components for
  \<open>Quat_128\<close> and three for the formats that drop w and for translations.
\<close>

definition rotation_range_size :: "RotationFormat8 \<Rightarrow> nat" where
  "rotation_range_size format = 2 * (if format = Quat_128 then 16 else 12)"

definition translation_range_size :: nat where
  "translation_range_size = 2 * 12"

text \<open>
  Modelled from the spec: \<open>get_bitset_size\<close> (acl/core/bitset.h) and
  \<open>FullPrecisionConstants::NUM_TRACKS_PER_BONE\<close> are not among the sources. Section 6:
  \<open>bitset_size = ceil(num_bones * 2 / 32)\<close> words, one bit per bone and track kind.
\<close>

definition NUM_TRACKS_PER_BONE :: uint32_t where
  "NUM_TRACKS_PER_BONE = 2"

definition get_bitset_size :: "uint32_t \<Rightarrow> uint32_t" where
  "get_bitset_size num_bits = word_of_nat ((unat num_bits + 31) div 32)"

definition sizeof_uint32_t :: size_t where
  "sizeof_uint32_t = 4"

record CompressionSettings =
  rotation_format :: RotationFormat8
  translation_format :: VectorFormat8
  range_reduction :: RangeReductionFlags8

text \<open>The default constructor of \<open>CompressionSettings\<close>.\<close>

definition CompressionSettings_default :: CompressionSettings where
  "CompressionSettings_default =
     \<lparr>rotation_format = Quat_128, translation_format = Vector3_96, range_reduction = {}\<rparr>"

text \<open>
  Modelled from the spec: \<open>AnimationClip\<close> is declared in
  acl/compression/animation\_clip.h, not among the sources. Section 3: N bones times S
  uniformly spaced samples at a sample rate. The record has the three getters the encoder
  calls, and the tracks of the bones, which only the stream builder looks at
  (\<open>clip_tracks\<close>, of a type the encoder does not inspect).
\<close>

record 'c AnimationClip =
  get_num_bones :: uint16_t
  get_num_samples :: uint32_t
  get_sample_rate :: uint32_t
  clip_tracks :: 'c

text \<open>
  Modelled from the spec: \<open>FullPrecisionHeader\<close> is declared in
  acl/algorithm/uniformly\_sampled/common.h, not among the sources. Its fields are the ones
  the encoder assigns; the region offsets are 32-bit (section 4.7) and of the
  \<open>PtrOffset32\<close> type, since the encoder assigns \<open>InvalidPtrOffset()\<close> to them.
\<close>

record FullPrecisionHeader =
  header_num_bones :: uint16_t
  header_rotation_format :: RotationFormat8
  header_translation_format :: VectorFormat8
  header_range_reduction :: RangeReductionFlags8
  header_num_samples :: uint32_t
  header_sample_rate :: uint32_t
  header_num_animated_rotation_tracks :: uint32_t
  header_num_animated_translation_tracks :: uint32_t
  default_tracks_bitset_offset :: PtrOffset32
  constant_tracks_bitset_offset :: PtrOffset32
  constant_track_data_offset :: PtrOffset32
  clip_range_data_offset :: PtrOffset32
  track_data_offset :: PtrOffset32

text \<open>
  Modelled from the spec: \<open>CompressedClip\<close> and \<open>make_compressed_clip\<close> are
  declared in acl/compression/compressed\_clip\_impl.h, not among the sources. The artifact
  is what \<open>make_compressed_clip\<close> is given (the size of the buffer and the algorithm
  tag, which the preamble of section 6 stores) and the header the encoder fills in. The
  bytes of the regions are written by functions that are not among the sources and are not
  modelled.
\<close>

record CompressedClip =
  clip_size :: uint32_t
  clip_algorithm_type :: AlgorithmType8
  clip_header :: FullPrecisionHeader

datatype (dead 'a) ptr = nullptr | Ptr 'a

text \<open>
  The functions \<open>compress_clip\<close> calls that are defined in headers outside the sources
  (acl/compression/stream/*.h) and the two \<open>sizeof\<close> constants of types declared
  there are parameters of the model. The stream functions update the bone streams in
  place; here each returns the updated streams, of an arbitrary type \<open>'s\<close>.
  \<open>get_num_animated_streams\<close> returns its four output parameters in the order of the
  call: constant rotations, constant translations, animated rotations, animated
  translations.
\<close>

record ('c, 's) externals =
  sizeof_CompressedClip :: size_t
  sizeof_FullPrecisionHeader :: size_t
  convert_clip_to_streams :: "'c AnimationClip \<Rightarrow> 's"
  convert_rotation_streams :: "'s \<Rightarrow> uint16_t \<Rightarrow> RotationFormat8 \<Rightarrow> 's"
  compact_constant_streams :: "'s \<Rightarrow> uint16_t \<Rightarrow> real \<Rightarrow> 's"
  normalize_rotation_streams ::
    "'s \<Rightarrow> uint16_t \<Rightarrow> RangeReductionFlags8 \<Rightarrow> RotationFormat8 \<Rightarrow> 's"
  normalize_translation_streams :: "'s \<Rightarrow> uint16_t \<Rightarrow> RangeReductionFlags8 \<Rightarrow> 's"
  get_stream_range_data_size ::
    "'s \<Rightarrow> uint16_t \<Rightarrow> RangeReductionFlags8 \<Rightarrow> RotationFormat8 \<Rightarrow> VectorFormat8 \<Rightarrow> uint32_t"
  quantize_rotation_streams :: "'s \<Rightarrow> uint16_t \<Rightarrow> RotationFormat8 \<Rightarrow> 's"
  quantize_translation_streams :: "'s \<Rightarrow> uint16_t \<Rightarrow> VectorFormat8 \<Rightarrow> 's"
  get_num_animated_streams :: "'s \<Rightarrow> uint16_t \<Rightarrow> uint32_t \<times> uint32_t \<times> uint32_t \<times> uint32_t"

text \<open>
  The calls \<open>compress_clip\<close> makes to its collaborators, in program order, with the
  arguments that matter to the layout: the streams a stage is given, the size and the
  alignment of an allocation, the size of a region a writer is given. \<open>Call_allocate\<close>
  is the call of \<open>allocator.allocate\<close> that \<open>compress_clip\<close> makes, through
  \<open>allocate_type_array\<close>, for the buffer of the artifact; what a stage allocates for
  itself is inside the stage and is not recorded.
\<close>

datatype (dead 'c, dead 's) call =
    Call_convert_clip_to_streams "'c AnimationClip"
  | Call_convert_rotation_streams 's RotationFormat8
  | Call_compact_constant_streams 's real
  | Call_normalize_rotation_streams 's RangeReductionFlags8 RotationFormat8
  | Call_normalize_translation_streams 's RangeReductionFlags8
  | Call_get_stream_range_data_size 's
  | Call_quantize_rotation_streams 's RotationFormat8
  | Call_quantize_translation_streams 's VectorFormat8
  | Call_get_num_animated_streams 's
  | Call_allocate size_t size_t
  | Call_make_compressed_clip uint32_t AlgorithmType8
  | Call_write_default_track_bitset 's uint32_t
  | Call_write_constant_track_bitset 's uint32_t
  | Call_write_constant_track_data 's uint32_t
  | Call_write_animated_track_data 's uint32_t
  | Call_write_range_track_data 's uint32_t
  | Call_finalize_compressed_clip
  | Call_deallocate_bone_streams 's

text \<open>
  \<open>allocate_type_array\<close> has two overloads,
  \<^verbatim>\<open>allocate_type_array(Allocator&, size_t num_elements, Args&&... args)\<close> and
  \<^verbatim>\<open>allocate_type_array(Allocator&, size_t num_elements, size_t alignment, Args&&... args)\<close>.
  The element type enters through \<open>sizeof\<close> and \<open>alignof\<close>. The first passes
  \<open>alignof(AllocatedType)\<close> to \<open>allocator.allocate\<close> and forwards \<open>args\<close> to the
  constructor of each element, which does not run for a trivially constructible type such
  as \<open>uint8_t\<close>. The second asserts that the alignment is valid and passes it on.
\<close>

definition allocate_type_array :: "size_t \<Rightarrow> size_t \<Rightarrow> size_t \<Rightarrow> ('c, 's) call" where
  "allocate_type_array sizeof_Type alignof_Type num_elements =
     Call_allocate (sizeof_Type * num_elements) alignof_Type"

definition allocate_type_array_alignment ::
  "size_t \<Rightarrow> size_t \<Rightarrow> size_t \<Rightarrow> size_t \<Rightarrow> ('c, 's) call option" where
  "allocate_type_array_alignment sizeof_Type alignof_Type num_elements alignment =
     (if is_alignment_valid alignof_Type alignment
      then Some (Call_allocate (sizeof_Type * num_elements) alignment)
      else None)"

definition sizeof_uint8_t :: size_t where
  "sizeof_uint8_t = 1"

definition alignof_uint8_t :: size_t where
  "alignof_uint8_t = 1"

text \<open>
  The encoder entry point. The result is \<open>None\<close> when an \<open>ACL_ENSURE\<close> fails, and
  otherwise the returned pointer with the calls made. The allocator is present as the
  \<open>Call_allocate\<close> entries of the calls; the skeleton is an argument the function does
  not read. The two nested conditions of lines 95 to 99 are one conjunction. The header
  offsets are \<open>PtrOffset32\<close> values: an offset in a sum converts to its \<open>uint32_t\<close>,
  and the assignment of the sum goes through the constructor \<open>PtrOffset(size_t)\<close> with
  its checked cast. The three offsets that may become invalid are computed first (lines
  160 to 162) and replaced by \<open>InvalidPtrOffset()\<close> afterwards (lines 167 to 180).

  The call \<^verbatim>\<open>allocate_type_array<uint8_t>(allocator, buffer_size, 16)\<close> resolves to the
  first overload of \<open>allocate_type_array\<close>: with \<open>Args = {int}\<close> its third parameter
  \<open>int&&\<close> binds to the literal 16 by an identity conversion, where the
  \<open>size_t alignment\<close> of the second overload needs an integral conversion, so the first
  is the better match. The 16 is a constructor argument that is never used, and the
  allocator is called with \<open>alignof(uint8_t)\<close>.
\<close>

definition compress_clip ::
  "('c, 's) externals \<Rightarrow> 'c AnimationClip \<Rightarrow> 'k \<Rightarrow> CompressionSettings
     \<Rightarrow> (CompressedClip ptr \<times> ('c, 's) call list) option" where
  "compress_clip ext clip skeleton settings =
    (let num_bones = get_num_bones clip;
         num_samples = get_num_samples clip
     in
     if ACL_TRY_ASSERT (num_bones > 0) then Some (nullptr, [])
     else if ACL_TRY_ASSERT (num_samples > 0) then Some (nullptr, [])
     else if translation_format settings \<noteq> Vector3_96
        \<and> ACL_TRY_ASSERT (are_enum_flags_set (range_reduction settings) ({PerClip} \<union> {Translations}))
     then Some (nullptr, [])
     else
     (let bone_streams0 = convert_clip_to_streams ext clip;
          bone_streams1 = convert_rotation_streams ext bone_streams0 num_bones (rotation_format settings);
          bone_streams2 = compact_constant_streams ext bone_streams1 num_bones 0.00001;
          per_clip = is_enum_flag_set (range_reduction settings) PerClip;
          bone_streams3 =
            (if per_clip
             then normalize_rotation_streams ext bone_streams2 num_bones
                    (range_reduction settings) (rotation_format settings)
             else bone_streams2);
          bone_streams4 =
            (if per_clip
             then normalize_translation_streams ext bone_streams3 num_bones (range_reduction settings)
             else bone_streams3);
          clip_range_data_size =
            (if per_clip
             then get_stream_range_data_size ext bone_streams4 num_bones (range_reduction settings)
                    (rotation_format settings) (translation_format settings)
             else 0);
          bone_streams5 = quantize_rotation_streams ext bone_streams4 num_bones (rotation_format settings);
          bone_streams = quantize_translation_streams ext bone_streams5 num_bones (translation_format settings);
          (num_constant_rotation_tracks, num_constant_translation_tracks,
           num_animated_rotation_tracks, num_animated_translation_tracks) =
            get_num_animated_streams ext bone_streams num_bones;
          rotation_size = get_packed_rotation_size (rotation_format settings);
          translation_size = get_packed_vector_size (translation_format settings);
          constant_translation_size = get_packed_vector_size Vector3_96;
          constant_data_size =
            (rotation_size * num_constant_rotation_tracks)
              + (constant_translation_size * num_constant_translation_tracks);
          animated_data_size0 =
            (rotation_size * num_animated_rotation_tracks)
              + (translation_size * num_animated_translation_tracks);
          animated_data_size = animated_data_size0 * num_samples;
          bitset_size = get_bitset_size (ucast num_bones * NUM_TRACKS_PER_BONE);
          buffer_size0 = (0 :: uint32_t);
          buffer_size1 = (ucast (ucast buffer_size0 + sizeof_CompressedClip ext) :: uint32_t);
          buffer_size2 = (ucast (ucast buffer_size1 + sizeof_FullPrecisionHeader ext) :: uint32_t);
          buffer_size3 = (ucast (ucast buffer_size2 + sizeof_uint32_t * ucast bitset_size) :: uint32_t);
          buffer_size4 = (ucast (ucast buffer_size3 + sizeof_uint32_t * ucast bitset_size) :: uint32_t);
          buffer_size5 = buffer_size4 + constant_data_size;
          buffer_size6 = align_to buffer_size5 4;
          buffer_size7 = buffer_size6 + clip_range_data_size;
          buffer_size8 = align_to buffer_size7 4;
          buffer_size = buffer_size8 + animated_data_size
      in do {
        default_offset \<leftarrow> PtrOffset (sizeof_FullPrecisionHeader ext);
        constant_bitset_offset \<leftarrow>
          PtrOffset (ucast default_offset + (sizeof_uint32_t * ucast bitset_size));
        constant_data_offset \<leftarrow>
          PtrOffset (ucast constant_bitset_offset + (sizeof_uint32_t * ucast bitset_size));
        range_data_offset \<leftarrow>
          PtrOffset (ucast (align_to (constant_data_offset + constant_data_size) 4));
        animated_data_offset \<leftarrow>
          PtrOffset (ucast (align_to (range_data_offset + clip_range_data_size) 4));
        Some
          (Ptr \<lparr>clip_size = buffer_size,
                clip_algorithm_type = UniformlySampled,
                clip_header =
                  \<lparr>header_num_bones = num_bones,
                   header_rotation_format = rotation_format settings,
                   header_translation_format = translation_format settings,
                   header_range_reduction = range_reduction settings,
                   header_num_samples = num_samples,
                   header_sample_rate = get_sample_rate clip,
                   header_num_animated_rotation_tracks = num_animated_rotation_tracks,
                   header_num_animated_translation_tracks = num_animated_translation_tracks,
                   default_tracks_bitset_offset = default_offset,
                   constant_tracks_bitset_offset = constant_bitset_offset,
                   constant_track_data_offset =
                     (if constant_data_size > 0 then constant_data_offset else InvalidPtrOffset),
                   clip_range_data_offset =
                     (if per_clip then range_data_offset else InvalidPtrOffset),
                   track_data_offset =
                     (if animated_data_size > 0 then animated_data_offset else InvalidPtrOffset)\<rparr>\<rparr>,
           [Call_convert_clip_to_streams clip,
            Call_convert_rotation_streams bone_streams0 (rotation_format settings),
            Call_compact_constant_streams bone_streams1 0.00001]
           @ (if per_clip
              then [Call_normalize_rotation_streams bone_streams2
                      (range_reduction settings) (rotation_format settings),
                    Call_normalize_translation_streams bone_streams3 (range_reduction settings),
                    Call_get_stream_range_data_size bone_streams4]
              else [])
           @ [Call_quantize_rotation_streams bone_streams4 (rotation_format settings),
              Call_quantize_translation_streams bone_streams5 (translation_format settings),
              Call_get_num_animated_streams bone_streams,
              allocate_type_array sizeof_uint8_t alignof_uint8_t (ucast buffer_size),
              Call_make_compressed_clip buffer_size UniformlySampled,
              Call_write_default_track_bitset bone_streams bitset_size,
              Call_write_constant_track_bitset bone_streams bitset_size]
           @ (if constant_data_size > 0
              then [Call_write_constant_track_data bone_streams constant_data_size]
              else [])
           @ (if animated_data_size > 0
              then [Call_write_animated_track_data bone_streams animated_data_size]
              else [])
           @ (if per_clip
              then [Call_write_range_track_data bone_streams clip_range_data_size]
              else [])
           @ [Call_finalize_compressed_clip,
              Call_deallocate_bone_streams bone_streams])
      }))"

section \<open>Vocabulary for the properties of the encoder\<close>

text \<open>
  The streams after each group of stages, as the compositions of the stage functions that
  \<open>compress_clip\<close> applies, and the quantities the encoder derives from them. The
  properties of \<open>compress_clip\<close> are stated with these names.
\<close>

definition compacted_streams ::
  "('c, 's) externals \<Rightarrow> 'c AnimationClip \<Rightarrow> CompressionSettings \<Rightarrow> 's" where
  "compacted_streams ext clip settings =
     compact_constant_streams ext
       (convert_rotation_streams ext (convert_clip_to_streams ext clip)
          (get_num_bones clip) (rotation_format settings))
       (get_num_bones clip) 0.00001"

definition normalized_streams ::
  "('c, 's) externals \<Rightarrow> 'c AnimationClip \<Rightarrow> CompressionSettings \<Rightarrow> 's" where
  "normalized_streams ext clip settings =
     (if PerClip \<in> range_reduction settings
      then normalize_translation_streams ext
             (normalize_rotation_streams ext (compacted_streams ext clip settings)
                (get_num_bones clip) (range_reduction settings) (rotation_format settings))
             (get_num_bones clip) (range_reduction settings)
      else compacted_streams ext clip settings)"

definition quantized_streams ::
  "('c, 's) externals \<Rightarrow> 'c AnimationClip \<Rightarrow> CompressionSettings \<Rightarrow> 's" where
  "quantized_streams ext clip settings =
     quantize_translation_streams ext
       (quantize_rotation_streams ext (normalized_streams ext clip settings)
          (get_num_bones clip) (rotation_format settings))
       (get_num_bones clip) (translation_format settings)"

text \<open>The size of the range data: what \<open>clip_range_data_size\<close> holds after line 111.\<close>

definition range_data_size ::
  "('c, 's) externals \<Rightarrow> 'c AnimationClip \<Rightarrow> CompressionSettings \<Rightarrow> uint32_t" where
  "range_data_size ext clip settings =
     (if PerClip \<in> range_reduction settings
      then get_stream_range_data_size ext (normalized_streams ext clip settings) (get_num_bones clip)
             (range_reduction settings) (rotation_format settings) (translation_format settings)
      else 0)"

text \<open>
  The four track counts of the quantized streams: constant rotations, constant
  translations, animated rotations, animated translations.
\<close>

definition track_counts ::
  "('c, 's) externals \<Rightarrow> 'c AnimationClip \<Rightarrow> CompressionSettings
     \<Rightarrow> uint32_t \<times> uint32_t \<times> uint32_t \<times> uint32_t" where
  "track_counts ext clip settings =
     get_num_animated_streams ext (quantized_streams ext clip settings) (get_num_bones clip)"

definition clip_bitset_size :: "'c AnimationClip \<Rightarrow> uint32_t" where
  "clip_bitset_size clip = get_bitset_size (ucast (get_num_bones clip) * NUM_TRACKS_PER_BONE)"

text \<open>The calls that are pipeline stages, and the calls of the allocator.\<close>

fun is_stage_call :: "('c, 's) call \<Rightarrow> bool" where
  "is_stage_call (Call_convert_clip_to_streams _) = True"
| "is_stage_call (Call_convert_rotation_streams _ _) = True"
| "is_stage_call (Call_compact_constant_streams _ _) = True"
| "is_stage_call (Call_normalize_rotation_streams _ _ _) = True"
| "is_stage_call (Call_normalize_translation_streams _ _) = True"
| "is_stage_call (Call_quantize_rotation_streams _ _) = True"
| "is_stage_call (Call_quantize_translation_streams _ _) = True"
| "is_stage_call _ = False"

fun is_allocate_call :: "('c, 's) call \<Rightarrow> bool" where
  "is_allocate_call (Call_allocate _ _) = True"
| "is_allocate_call _ = False"

text \<open>
  The bytes of the constant region and of the animated region: the sizes the encoder hands
  to the writer of each region (no call of the writer, no bytes).
\<close>

fun constant_bytes_written :: "('c, 's) call \<Rightarrow> uint32_t" where
  "constant_bytes_written (Call_write_constant_track_data _ n) = n"
| "constant_bytes_written _ = 0"

fun animated_bytes_written :: "('c, 's) call \<Rightarrow> uint32_t" where
  "animated_bytes_written (Call_write_animated_track_data _ n) = n"
| "animated_bytes_written _ = 0"

definition constant_region_size :: "('c, 's) call list \<Rightarrow> uint32_t" where
  "constant_region_size calls = sum_list (map constant_bytes_written calls)"

definition animated_region_size :: "('c, 's) call list \<Rightarrow> uint32_t" where
  "animated_region_size calls = sum_list (map animated_bytes_written calls)"

section \<open>An instance of the collaborators\<close>

text \<open>
  A small instance of the parameters, for evaluating \<open>compress_clip\<close> on concrete
  clips. The tracks of a clip are summarised by the four track counts; the streams carry
  these counts and the list of the stages applied so far (numbered 1 to 7). The range data
  holds the range of every animated track of a kind whose flag is set (section 4.4). The preamble has the 16 bytes of section 6 and the
  header 44 bytes (the fields of section 4.7 with the five offsets the encoder assigns).
\<close>

type_synonym example_tracks = "uint32_t \<times> uint32_t \<times> uint32_t \<times> uint32_t"

type_synonym example_streams = "example_tracks \<times> nat list"

definition example_externals :: "(example_tracks, example_streams) externals" where
  "example_externals =
     \<lparr>sizeof_CompressedClip = 16,
      sizeof_FullPrecisionHeader = 44,
      convert_clip_to_streams = (\<lambda>clip. (clip_tracks clip, [1])),
      convert_rotation_streams =
        (\<lambda>(tracks, stages) num_bones rotation_format. (tracks, stages @ [2])),
      compact_constant_streams =
        (\<lambda>(tracks, stages) num_bones threshold. (tracks, stages @ [3])),
      normalize_rotation_streams =
        (\<lambda>(tracks, stages) num_bones flags rotation_format. (tracks, stages @ [4])),
      normalize_translation_streams =
        (\<lambda>(tracks, stages) num_bones flags. (tracks, stages @ [5])),
      get_stream_range_data_size =
        (\<lambda>((n_cr, n_ct, n_ar, n_at), stages) num_bones flags rotation_format translation_format.
           (if Rotations \<in> flags
            then word_of_nat (rotation_range_size rotation_format) * n_ar else 0)
           + (if Translations \<in> flags then word_of_nat translation_range_size * n_at else 0)),
      quantize_rotation_streams =
        (\<lambda>(tracks, stages) num_bones rotation_format. (tracks, stages @ [6])),
      quantize_translation_streams =
        (\<lambda>(tracks, stages) num_bones translation_format. (tracks, stages @ [7])),
      get_num_animated_streams = (\<lambda>(tracks, stages) num_bones. tracks)\<rparr>"

text \<open>
  Two bones and three samples: one constant and one animated rotation, two animated
  translations, quantized to 48 bits with range reduction per clip.
\<close>

definition example_clip :: "example_tracks AnimationClip" where
  "example_clip =
     \<lparr>get_num_bones = 2, get_num_samples = 3, get_sample_rate = 30, clip_tracks = (1, 0, 1, 2)\<rparr>"

definition example_settings :: CompressionSettings where
  "example_settings =
     \<lparr>rotation_format = Quat_128, translation_format = Vector3_48,
      range_reduction = {PerClip, Translations}\<rparr>"

text \<open>
  One bone and two samples with a constant rotation and a constant translation (scenario 2
  of section 8), compressed with range reduction of the translations per clip.
\<close>

definition constant_clip :: "example_tracks AnimationClip" where
  "constant_clip =
     \<lparr>get_num_bones = 1, get_num_samples = 2, get_sample_rate = 30, clip_tracks = (1, 1, 0, 0)\<rparr>"

definition per_clip_settings :: CompressionSettings where
  "per_clip_settings =
     \<lparr>rotation_format = Quat_128, translation_format = Vector3_96,
      range_reduction = {PerClip, Translations}\<rparr>"

text \<open>A clip without bones, and the settings of scenario 6 of section 8.\<close>

definition empty_clip :: "example_tracks AnimationClip" where
  "empty_clip =
     \<lparr>get_num_bones = 0, get_num_samples = 3, get_sample_rate = 30, clip_tracks = (0, 0, 0, 0)\<rparr>"

definition incompatible_settings :: CompressionSettings where
  "incompatible_settings =
     \<lparr>rotation_format = Quat_128, translation_format = Vector3_48, range_reduction = {}\<rparr>"

text \<open>
  Two clips of two samples with the same four tracks that are not default, a constant and
  an animated one of each kind: the first has three bones, so two default tracks, the second
  five bones, so six default tracks. Both are quantized to 48 bits.
\<close>

definition mixed_clip :: "example_tracks AnimationClip" where
  "mixed_clip =
     \<lparr>get_num_bones = 3, get_num_samples = 2, get_sample_rate = 30, clip_tracks = (1, 1, 1, 1)\<rparr>"

definition padded_clip :: "example_tracks AnimationClip" where
  "padded_clip =
     \<lparr>get_num_bones = 5, get_num_samples = 2, get_sample_rate = 30, clip_tracks = (1, 1, 1, 1)\<rparr>"

definition mixed_settings :: CompressionSettings where
  "mixed_settings =
     \<lparr>rotation_format = Quat_48, translation_format = Vector3_48,
      range_reduction = {PerClip, Translations}\<rparr>"

text \<open>
  One bone whose rotation is animated over 268435456 samples (two to the power 28), a
  little over a hundred days at 30 samples per second.
\<close>

definition long_clip :: "example_tracks AnimationClip" where
  "long_clip =
     \<lparr>get_num_bones = 1, get_num_samples = 268435456, get_sample_rate = 30,
      clip_tracks = (0, 0, 1, 0)\<rparr>"

section \<open>Animation tracks (acl/compression/animation\_track.h)\<close>

text \<open>
  A track: \<open>m_allocator\<close> is \<open>None\<close> for \<open>nullptr\<close>, and \<open>m_sample_data\<close> is the
  array of doubles, read by index. The constructor takes any number of samples and any
  sample rate, zero included.
\<close>

datatype AnimationTrackType8 = Rotation | Translation

record AnimationTrack =
  m_allocator :: "unit option"
  m_sample_data :: "nat \<Rightarrow> real"
  m_num_samples :: uint32_t
  m_sample_rate :: uint32_t
  m_type :: AnimationTrackType8

definition is_initialized :: "AnimationTrack \<Rightarrow> bool" where
  "is_initialized track = (m_allocator track \<noteq> None)"

fun get_animation_track_sample_size :: "AnimationTrackType8 \<Rightarrow> nat" where
  "get_animation_track_sample_size Rotation = 4"
| "get_animation_track_sample_size Translation = 3"

text \<open>
  The outcomes of a function of the tracks other than a value: a failed \<open>ACL_ENSURE\<close>,
  and a division of doubles by zero, whose result is an infinity or a NaN and not a number.
\<close>

datatype track_error = ACL_ENSURE_failed | Division_by_zero

text \<open>
  Modelled from the spec: \<open>Quat_64\<close> and \<open>Vector4_64\<close> with their loads
  \<open>quat_unaligned_load\<close> and \<open>vector_unaligned_load3\<close> and their interpolations
  \<open>quat_lerp\<close> and \<open>vector_lerp\<close> are declared in acl/math/quat\_64.h and
  acl/math/vector4\_64.h, not among the sources. A value is its four components (section
  3); a load reads four, respectively three, consecutive doubles (the fourth component of
  a vector is then 0). Section 4.8 gives the two interpolations: for rotations
  \<open>nlerp(q0, q1, alpha)\<close> followed by normalization, with hemisphere selection (negate
  q1 if \<open>dot(q0, q1) < 0\<close>); for translations the plain linear interpolation. The
  normalization divides by the length, which is zero for the zero quaternion.
\<close>

type_synonym Quat_64 = "real \<times> real \<times> real \<times> real"

type_synonym Vector4_64 = "real \<times> real \<times> real \<times> real"

definition quat_unaligned_load :: "(nat \<Rightarrow> real) \<Rightarrow> nat \<Rightarrow> Quat_64" where
  "quat_unaligned_load input offset =
     (input offset, input (offset + 1), input (offset + 2), input (offset + 3))"

definition vector_unaligned_load3 :: "(nat \<Rightarrow> real) \<Rightarrow> nat \<Rightarrow> Vector4_64" where
  "vector_unaligned_load3 input offset =
     (input offset, input (offset + 1), input (offset + 2), 0)"

definition quat_lerp :: "Quat_64 \<Rightarrow> Quat_64 \<Rightarrow> real \<Rightarrow> track_error + Quat_64" where
  "quat_lerp start finish alpha =
     (case (start, finish) of
        ((x0, y0, z0, w0), (x1, y1, z1, w1)) \<Rightarrow>
          (let dot = x0 * x1 + y0 * y1 + z0 * z1 + w0 * w1;
               bias = (if dot < 0 then - 1 else 1);
               x = x0 + (x1 * bias - x0) * alpha;
               y = y0 + (y1 * bias - y0) * alpha;
               z = z0 + (z1 * bias - z0) * alpha;
               w = w0 + (w1 * bias - w0) * alpha;
               len = sqrt (x * x + y * y + z * z + w * w)
           in if len = 0 then Inl Division_by_zero
              else Inr (x / len, y / len, z / len, w / len)))"

definition vector_lerp :: "Vector4_64 \<Rightarrow> Vector4_64 \<Rightarrow> real \<Rightarrow> Vector4_64" where
  "vector_lerp start finish alpha =
     (case (start, finish) of
        ((x0, y0, z0, w0), (x1, y1, z1, w1)) \<Rightarrow>
          (x0 + (x1 - x0) * alpha, y0 + (y1 - y0) * alpha,
           z0 + (z1 - z0) * alpha, w0 + (w1 - w0) * alpha))"

text \<open>
  Modelled from the spec: \<open>calculate_interpolation_keys\<close> is declared in
  acl/core/utils.h, not among the sources. Section 4.8, steps 2 and 3: clamp the time to
  \<open>[0, duration]\<close>, then \<open>frame0 = floor(t * sample_rate)\<close>,
  \<open>frame1 = min(frame0 + 1, num_samples - 1)\<close> and
  \<open>alpha = t * sample_rate - frame0\<close>. The function is given the number of samples
  and the duration, and \<open>duration = (num_samples - 1) / sample_rate\<close> (step 1), so the
  sample rate is \<open>(num_samples - 1) / duration\<close>; for a duration of 0 the clamped time
  is 0 and so is its product with any sample rate.
\<close>

definition calculate_interpolation_keys ::
  "uint32_t \<Rightarrow> real \<Rightarrow> real \<Rightarrow> uint32_t \<times> uint32_t \<times> real" where
  "calculate_interpolation_keys num_samples duration sample_time =
     (let sample_rate = (if duration = 0 then 0 else real (unat (num_samples - 1)) / duration);
          clamped_time = clamp sample_time 0 duration;
          sample_key = clamped_time * sample_rate;
          sample_frame0 = (word_of_int \<lfloor>sample_key\<rfloor> :: uint32_t);
          sample_frame1 = min (sample_frame0 + 1) (num_samples - 1);
          interpolation_alpha = sample_key - real (unat sample_frame0)
      in (sample_frame0, sample_frame1, interpolation_alpha))"

text \<open>
  \<open>AnimationRotationTrack::get_sample\<close> and \<open>sample_track\<close>. The duration is a
  quotient of doubles, \<open>double(m_num_samples - 1) / double(m_sample_rate)\<close>, the
  subtraction being the one of \<open>uint32_t\<close>. For a sample rate of 0 the quotient is an
  infinity, or a NaN when the numerator is 0 too: the outcome is \<open>Division_by_zero\<close>,
  and the model does not follow the infinity or the NaN through
  \<open>calculate_interpolation_keys\<close>, about which section 4.8 says nothing for such a
  duration.
\<close>

definition rotation_get_sample :: "AnimationTrack \<Rightarrow> uint32_t \<Rightarrow> track_error + Quat_64" where
  "rotation_get_sample track sample_index =
     (if \<not> is_initialized track then Inl ACL_ENSURE_failed
      else if m_type track \<noteq> Rotation then Inl ACL_ENSURE_failed
      else if \<not> sample_index < m_num_samples track then Inl ACL_ENSURE_failed
      else
        (let sample_size = get_animation_track_sample_size (m_type track)
         in Inr (quat_unaligned_load (m_sample_data track) (unat sample_index * sample_size))))"

definition rotation_sample_track :: "AnimationTrack \<Rightarrow> real \<Rightarrow> track_error + Quat_64" where
  "rotation_sample_track track sample_time =
     (if m_sample_rate track = 0 then Inl Division_by_zero
      else
       (let track_duration =
              real (unat (m_num_samples track - 1)) / real (unat (m_sample_rate track));
            (sample_frame0, sample_frame1, interpolation_alpha) =
               calculate_interpolation_keys (m_num_samples track) track_duration sample_time
        in case rotation_get_sample track sample_frame0 of
             Inl failure \<Rightarrow> Inl failure
           | Inr sample0 \<Rightarrow>
               (case rotation_get_sample track sample_frame1 of
                  Inl failure \<Rightarrow> Inl failure
                | Inr sample1 \<Rightarrow> quat_lerp sample0 sample1 interpolation_alpha)))"

text \<open>\<open>AnimationTranslationTrack::get_sample\<close> and \<open>sample_track\<close>.\<close>

definition translation_get_sample ::
  "AnimationTrack \<Rightarrow> uint32_t \<Rightarrow> track_error + Vector4_64" where
  "translation_get_sample track sample_index =
     (if \<not> is_initialized track then Inl ACL_ENSURE_failed
      else if m_type track \<noteq> Translation then Inl ACL_ENSURE_failed
      else if \<not> sample_index < m_num_samples track then Inl ACL_ENSURE_failed
      else
        (let sample_size = get_animation_track_sample_size (m_type track)
         in Inr (vector_unaligned_load3 (m_sample_data track) (unat sample_index * sample_size))))"

definition translation_sample_track ::
  "AnimationTrack \<Rightarrow> real \<Rightarrow> track_error + Vector4_64" where
  "translation_sample_track track sample_time =
     (if m_sample_rate track = 0 then Inl Division_by_zero
      else
       (let track_duration =
              real (unat (m_num_samples track - 1)) / real (unat (m_sample_rate track));
            (sample_frame0, sample_frame1, interpolation_alpha) =
               calculate_interpolation_keys (m_num_samples track) track_duration sample_time
        in case translation_get_sample track sample_frame0 of
             Inl failure \<Rightarrow> Inl failure
           | Inr sample0 \<Rightarrow>
               (case translation_get_sample track sample_frame1 of
                  Inl failure \<Rightarrow> Inl failure
                | Inr sample1 \<Rightarrow> Inr (vector_lerp sample0 sample1 interpolation_alpha))))"

text \<open>
  The vocabulary of the sampling properties: the duration of a track, the position of a
  time on the axis of the frames after clamping, the two surrounding frames, the weight
  of the second, and the samples of a track by frame.
\<close>

definition duration_of :: "AnimationTrack \<Rightarrow> real" where
  "duration_of track = real (unat (m_num_samples track) - 1) / real (unat (m_sample_rate track))"

definition sample_key_of :: "AnimationTrack \<Rightarrow> real \<Rightarrow> real" where
  "sample_key_of track t = clamp t 0 (duration_of track) * real (unat (m_sample_rate track))"

definition frame0_of :: "AnimationTrack \<Rightarrow> real \<Rightarrow> nat" where
  "frame0_of track t = nat \<lfloor>sample_key_of track t\<rfloor>"

definition frame1_of :: "AnimationTrack \<Rightarrow> real \<Rightarrow> nat" where
  "frame1_of track t = min (frame0_of track t + 1) (unat (m_num_samples track) - 1)"

definition alpha_of :: "AnimationTrack \<Rightarrow> real \<Rightarrow> real" where
  "alpha_of track t = sample_key_of track t - real (frame0_of track t)"

definition last_frame :: "AnimationTrack \<Rightarrow> nat" where
  "last_frame track = unat (m_num_samples track) - 1"

definition rotation_sample :: "AnimationTrack \<Rightarrow> nat \<Rightarrow> Quat_64" where
  "rotation_sample track i = quat_unaligned_load (m_sample_data track) (i * 4)"

definition translation_sample :: "AnimationTrack \<Rightarrow> nat \<Rightarrow> Vector4_64" where
  "translation_sample track i = vector_unaligned_load3 (m_sample_data track) (i * 3)"

text \<open>The length of a rotation, and the rotation scaled to the length 1.\<close>

definition quat_length_64 :: "Quat_64 \<Rightarrow> real" where
  "quat_length_64 q = (case q of (x, y, z, w) \<Rightarrow> sqrt (x * x + y * y + z * z + w * w))"

definition quat_normalized :: "Quat_64 \<Rightarrow> Quat_64" where
  "quat_normalized q =
     (case q of (x, y, z, w) \<Rightarrow>
        (x / quat_length_64 q, y / quat_length_64 q, z / quat_length_64 q, w / quat_length_64 q))"

text \<open>
  Three tracks at 30 samples per second: a rotation track with the three samples
  (0, 0, 0, 1), (0, 1, 0, 0) and (1, 0, 0, 0); the translation track of scenario 3 of
  section 8, with the samples (0, 0, 0), (1, 0, 0) and (2, 0, 0); and an initialized
  rotation track without samples. A fourth track, a translation track with the one sample
  (7, 8, 9), has the sample rate 0.
\<close>

definition example_rotation_track :: AnimationTrack where
  "example_rotation_track =
     \<lparr>m_allocator = Some (),
      m_sample_data = (\<lambda>i. [0, 0, 0, 1, 0, 1, 0, 0, 1, 0, 0, 0] ! i),
      m_num_samples = 3, m_sample_rate = 30, m_type = Rotation\<rparr>"

definition example_translation_track :: AnimationTrack where
  "example_translation_track =
     \<lparr>m_allocator = Some (),
      m_sample_data = (\<lambda>i. [0, 0, 0, 1, 0, 0, 2, 0, 0] ! i),
      m_num_samples = 3, m_sample_rate = 30, m_type = Translation\<rparr>"

definition empty_rotation_track :: AnimationTrack where
  "empty_rotation_track =
     \<lparr>m_allocator = Some (), m_sample_data = (\<lambda>i. 0),
      m_num_samples = 0, m_sample_rate = 30, m_type = Rotation\<rparr>"

definition single_sample_zero_rate_track :: AnimationTrack where
  "single_sample_zero_rate_track =
     \<lparr>m_allocator = Some (), m_sample_data = (\<lambda>i. [7, 8, 9] ! i),
      m_num_samples = 1, m_sample_rate = 0, m_type = Translation\<rparr>"

section \<open>The decoder\<close>

text \<open>
  Modelled from the spec: the decoder (\<open>decompress_pose\<close> and \<open>decompress_bone\<close>) is
  not among the sources; acl\_compressor's main.cpp only calls it. The definitions of this
  section follow sections 3, 4.4, 4.6 and 4.8 of the spec.

  The artifact is its header and the regions the offsets of the header locate: the two
  bitsets, read by bit index (\<open>bone_index * 2 + k\<close>, with \<open>k = 0\<close> for the rotation
  and \<open>k = 1\<close> for the translation), and the bytes of the constant, range and animated
  regions.
\<close>

type_synonym bytes = "8 word list"

record CompressedArtifact =
  artifact_header :: FullPrecisionHeader
  default_tracks_bitset :: "nat \<Rightarrow> bool"
  constant_tracks_bitset :: "nat \<Rightarrow> bool"
  constant_track_data :: bytes
  clip_range_data :: bytes
  track_data :: bytes

text \<open>
  Modelled from the spec: the arithmetic of the decoder on floating-point values is a
  parameter, so that two results are equal only if they are computed by the same
  operations from the same bytes: the validation of the header (section 4.7), the
  canonical values of a default track, the dequantization of a sample of each format, the
  inverse of the range reduction from the stored minimum and extent, and the two
  interpolations of section 4.8 (for rotations with the selection of the hemisphere and
  the normalization).
\<close>

record ('q, 'v) codec =
  validate_header :: "CompressedArtifact \<Rightarrow> bool"
  identity_rotation :: 'q
  zero_translation :: 'v
  unpack_rotation :: "RotationFormat8 \<Rightarrow> bytes \<Rightarrow> 'q"
  unpack_translation :: "VectorFormat8 \<Rightarrow> bytes \<Rightarrow> 'v"
  unnormalize_rotation :: "bytes \<Rightarrow> 'q \<Rightarrow> 'q"
  unnormalize_translation :: "bytes \<Rightarrow> 'v \<Rightarrow> 'v"
  nlerp :: "'q \<Rightarrow> 'q \<Rightarrow> real \<Rightarrow> 'q"
  lerp :: "'v \<Rightarrow> 'v \<Rightarrow> real \<Rightarrow> 'v"

definition read_bytes :: "bytes \<Rightarrow> nat \<Rightarrow> nat \<Rightarrow> bytes" where
  "read_bytes region offset n = take n (drop offset region)"

definition rotation_bit :: "nat \<Rightarrow> nat" where
  "rotation_bit bone = bone * 2"

definition translation_bit :: "nat \<Rightarrow> nat" where
  "translation_bit bone = bone * 2 + 1"

text \<open>
  Modelled from the spec: (section 4.6) the regions are written bone-major, rotation then
  translation. A position in the artifact is the triple of the offsets reached in the
  constant, range and animated regions. A default track has no bytes; a constant track
  has one sample in the constant region (a translation always as \<open>Vector3_96\<close>); an
  animated track has its range, when its kind is range-reduced, and \<open>num_samples\<close>
  samples in the animated region.
\<close>

type_synonym cursor = "nat \<times> nat \<times> nat"

definition skip_rotation :: "CompressedArtifact \<Rightarrow> cursor \<Rightarrow> nat \<Rightarrow> cursor" where
  "skip_rotation artifact cur bone =
     (case cur of (constant_offset, range_offset, animated_offset) \<Rightarrow>
        let header = artifact_header artifact;
            sample_size = unat (get_packed_rotation_size (header_rotation_format header))
        in if default_tracks_bitset artifact (rotation_bit bone) then cur
           else if constant_tracks_bitset artifact (rotation_bit bone)
           then (constant_offset + sample_size, range_offset, animated_offset)
           else (constant_offset,
                 range_offset
                   + (if {PerClip, Rotations} \<subseteq> header_range_reduction header
                      then rotation_range_size (header_rotation_format header) else 0),
                 animated_offset + unat (header_num_samples header) * sample_size))"

definition skip_translation :: "CompressedArtifact \<Rightarrow> cursor \<Rightarrow> nat \<Rightarrow> cursor" where
  "skip_translation artifact cur bone =
     (case cur of (constant_offset, range_offset, animated_offset) \<Rightarrow>
        let header = artifact_header artifact;
            sample_size = unat (get_packed_vector_size (header_translation_format header))
        in if default_tracks_bitset artifact (translation_bit bone) then cur
           else if constant_tracks_bitset artifact (translation_bit bone)
           then (constant_offset + unat (get_packed_vector_size Vector3_96),
                 range_offset, animated_offset)
           else (constant_offset,
                 range_offset
                   + (if {PerClip, Translations} \<subseteq> header_range_reduction header
                      then translation_range_size else 0),
                 animated_offset + unat (header_num_samples header) * sample_size))"

text \<open>
  Modelled from the spec: (section 4.8, step 4) a default rotation is the identity; a
  constant one is the single stored rotation, dequantized; otherwise the samples of the
  frames \<open>frame0\<close> and \<open>frame1\<close> are read, dequantized and interpolated. The
  translation is analogous.
\<close>

definition decode_rotation ::
  "('q, 'v) codec \<Rightarrow> CompressedArtifact \<Rightarrow> nat \<times> nat \<times> real \<Rightarrow> cursor \<Rightarrow> nat \<Rightarrow> 'q" where
  "decode_rotation codec artifact keys cur bone =
     (case (keys, cur) of
        ((frame0, frame1, alpha), (constant_offset, range_offset, animated_offset)) \<Rightarrow>
        let header = artifact_header artifact;
            format = header_rotation_format header;
            sample_size = unat (get_packed_rotation_size format)
        in if default_tracks_bitset artifact (rotation_bit bone) then identity_rotation codec
           else if constant_tracks_bitset artifact (rotation_bit bone)
           then unpack_rotation codec format
                  (read_bytes (constant_track_data artifact) constant_offset sample_size)
           else
             let sample0 = unpack_rotation codec format
                   (read_bytes (track_data artifact) (animated_offset + frame0 * sample_size) sample_size);
                 sample1 = unpack_rotation codec format
                   (read_bytes (track_data artifact) (animated_offset + frame1 * sample_size) sample_size);
                 range = read_bytes (clip_range_data artifact) range_offset (rotation_range_size format)
             in if {PerClip, Rotations} \<subseteq> header_range_reduction header
                then nlerp codec (unnormalize_rotation codec range sample0)
                       (unnormalize_rotation codec range sample1) alpha
                else nlerp codec sample0 sample1 alpha)"

definition decode_translation ::
  "('q, 'v) codec \<Rightarrow> CompressedArtifact \<Rightarrow> nat \<times> nat \<times> real \<Rightarrow> cursor \<Rightarrow> nat \<Rightarrow> 'v" where
  "decode_translation codec artifact keys cur bone =
     (case (keys, cur) of
        ((frame0, frame1, alpha), (constant_offset, range_offset, animated_offset)) \<Rightarrow>
        let header = artifact_header artifact;
            format = header_translation_format header;
            sample_size = unat (get_packed_vector_size format)
        in if default_tracks_bitset artifact (translation_bit bone) then zero_translation codec
           else if constant_tracks_bitset artifact (translation_bit bone)
           then unpack_translation codec Vector3_96
                  (read_bytes (constant_track_data artifact) constant_offset
                     (unat (get_packed_vector_size Vector3_96)))
           else
             let sample0 = unpack_translation codec format
                   (read_bytes (track_data artifact) (animated_offset + frame0 * sample_size) sample_size);
                 sample1 = unpack_translation codec format
                   (read_bytes (track_data artifact) (animated_offset + frame1 * sample_size) sample_size);
                 range = read_bytes (clip_range_data artifact) range_offset translation_range_size
             in if {PerClip, Translations} \<subseteq> header_range_reduction header
                then lerp codec (unnormalize_translation codec range sample0)
                       (unnormalize_translation codec range sample1) alpha
                else lerp codec sample0 sample1 alpha)"

text \<open>
  Modelled from the spec: (section 4.8, steps 1 to 3) the duration from the header, the
  clamped time and the two frames with the weight of the second.
\<close>

definition seek :: "CompressedArtifact \<Rightarrow> real \<Rightarrow> nat \<times> nat \<times> real" where
  "seek artifact t =
     (let header = artifact_header artifact;
          duration = real (unat (header_num_samples header - 1)) / real (unat (header_sample_rate header));
          (frame0, frame1, alpha) = calculate_interpolation_keys (header_num_samples header) duration t
      in (unat frame0, unat frame1, alpha))"

text \<open>
  Modelled from the spec: (section 4.8) \<open>decompress_pose\<close> decodes the bones in the order
  of the regions, each from the position the previous one ended at, and delivers one
  rotation and one translation per bone (the list, by bone index).
\<close>

fun decode_bones ::
  "('q, 'v) codec \<Rightarrow> CompressedArtifact \<Rightarrow> nat \<times> nat \<times> real \<Rightarrow> cursor \<Rightarrow> nat list
     \<Rightarrow> ('q \<times> 'v) list" where
  "decode_bones codec artifact keys cur [] = []"
| "decode_bones codec artifact keys cur (bone # bones) =
     (let rotation = decode_rotation codec artifact keys cur bone;
          cur1 = skip_rotation artifact cur bone;
          translation = decode_translation codec artifact keys cur1 bone;
          cur2 = skip_translation artifact cur1 bone
      in (rotation, translation) # decode_bones codec artifact keys cur2 bones)"

definition decompress_pose ::
  "('q, 'v) codec \<Rightarrow> CompressedArtifact \<Rightarrow> real \<Rightarrow> ('q \<times> 'v) list option" where
  "decompress_pose codec artifact t =
     (if \<not> validate_header codec artifact then None
      else Some (decode_bones codec artifact (seek artifact t) (0, 0, 0)
                   [0 ..< unat (header_num_bones (artifact_header artifact))]))"

text \<open>
  Modelled from the spec: (section 4.8) \<open>decompress_bone\<close> is the same math for one bone
  only. It seeks: the bones before it are skipped, by their bits alone, without decoding
  any of their samples.
\<close>

fun skip_bones :: "CompressedArtifact \<Rightarrow> cursor \<Rightarrow> nat list \<Rightarrow> cursor" where
  "skip_bones artifact cur [] = cur"
| "skip_bones artifact cur (bone # bones) =
     skip_bones artifact (skip_translation artifact (skip_rotation artifact cur bone) bone) bones"

definition decompress_bone ::
  "('q, 'v) codec \<Rightarrow> CompressedArtifact \<Rightarrow> real \<Rightarrow> nat \<Rightarrow> ('q \<times> 'v) option" where
  "decompress_bone codec artifact t bone =
     (if \<not> validate_header codec artifact then None
      else
        (let keys = seek artifact t;
             cur = skip_bones artifact (0, 0, 0) [0 ..< bone];
             rotation = decode_rotation codec artifact keys cur bone;
             translation = decode_translation codec artifact keys (skip_rotation artifact cur bone) bone
         in Some (rotation, translation)))"

text \<open>
  A decoder whose values are the terms of the operations applied, and an artifact with two
  bones and two samples in the formats \<open>Quat_32\<close> and \<open>Vector3_96\<close>: the rotation
  of bone 0 and the translation of bone 1 are animated, the translation of bone 0 and the
  rotation of bone 1 are constant.
\<close>

datatype decoded =
    Identity
  | Zero
  | Unpacked bytes
  | Unnormalized bytes decoded
  | Interpolated decoded decoded real

definition example_codec :: "(decoded, decoded) codec" where
  "example_codec =
     \<lparr>validate_header = (\<lambda>artifact. True),
      identity_rotation = Identity,
      zero_translation = Zero,
      unpack_rotation = (\<lambda>format data. Unpacked data),
      unpack_translation = (\<lambda>format data. Unpacked data),
      unnormalize_rotation = Unnormalized,
      unnormalize_translation = Unnormalized,
      nlerp = Interpolated,
      lerp = Interpolated\<rparr>"

definition example_artifact :: CompressedArtifact where
  "example_artifact =
     \<lparr>artifact_header =
        \<lparr>header_num_bones = 2, header_rotation_format = Quat_32,
         header_translation_format = Vector3_96, header_range_reduction = {},
         header_num_samples = 2, header_sample_rate = 30,
         header_num_animated_rotation_tracks = 1,
         header_num_animated_translation_tracks = 1,
         default_tracks_bitset_offset = 44, constant_tracks_bitset_offset = 48,
         constant_track_data_offset = 52, clip_range_data_offset = InvalidPtrOffset,
         track_data_offset = 68\<rparr>,
      default_tracks_bitset = (\<lambda>bit. False),
      constant_tracks_bitset = (\<lambda>bit. bit = 1 \<or> bit = 2),
      constant_track_data = [17, 34, 51, 68, 85, 102, 119, 136, 153, 170, 187, 204, 7, 14, 21, 28],
      clip_range_data = [],
      track_data =
        [3, 6, 9, 12, 15, 18, 21, 24,
         40, 45, 50, 55, 60, 65, 70, 75, 80, 85, 90, 95,
         201, 203, 205, 207, 209, 211, 213, 215, 217, 219, 221, 223]\<rparr>"

section \<open>Properties of the scalar and quaternion helpers\<close>

lemma quat_get_set:
  "quat_get_x sse2 (quat_set sse2 x y z w) = (if sse2 then w else x)"
  "quat_get_y sse2 (quat_set sse2 x y z w) = (if sse2 then z else y)"
  "quat_get_z sse2 (quat_set sse2 x y z w) = (if sse2 then y else z)"
  "quat_get_w sse2 (quat_set sse2 x y z w) = (if sse2 then x else w)"
  by (simp_all add: quat_set_def quat_get_x_def quat_get_y_def quat_get_z_def quat_get_w_def
      mm_set_ps_def mm_cvtss_f32_def mm_shuffle_ps_def numeral_2_eq_2 numeral_3_eq_3)

lemma euclidean_length_quat_set:
  "euclidean_length (quat_set sse2 x y z w) = sqrt (x * x + y * y + z * z + w * w)"
  by (simp add: euclidean_length_def quat_set_def mm_set_ps_def)

lemma quat_length_squared_quat_set:
  "quat_length_squared sse2 (quat_set sse2 x y z w) =
     (if sse2 then w * w + (z + z) + (y + y) + (x + x) else x * x + (y + y) + (z + z) + (w + w))"
  by (simp add: quat_length_squared_def quat_get_set)

text \<open>
  C2 (quat_normalize yields unit length). The claim holds of a correct length
  computation; the source's \<open>quat_length_squared\<close> adds three of the components to
  themselves where it should square them. At \<open>quat_set(1, 1, 0, 0)\<close>, a quaternion with
  finite, not-all-zero components and the Euclidean length \<open>sqrt 2\<close>, the function
  fails in the two builds. Without \<open>ACL_SSE2_INTRINSICS\<close> the squared length is
  computed as 3 and the result is \<open>quat_set(1 / sqrt 3, 1 / sqrt 3, 0, 0)\<close>, of
  length \<open>sqrt (2 / 3)\<close>. With \<open>ACL_SSE2_INTRINSICS\<close>, where the getters read the
  components in the reverse order, it is computed as 4 and the result is
  \<open>quat_set(0, 0, 1 / 2, 1 / 2)\<close>, of length \<open>sqrt (1 / 2)\<close>. Neither length is 1.
\<close>

theorem quat_normalize_not_unit:
  "euclidean_length (quat_set False 1 1 0 0) = sqrt 2
   \<and> euclidean_length (quat_set True 1 1 0 0) = sqrt 2
   \<and> quat_length_squared False (quat_set False 1 1 0 0) = 3
   \<and> quat_normalize False (quat_set False 1 1 0 0)
       = Some (quat_set False (1 / sqrt 3) (1 / sqrt 3) 0 0)
   \<and> euclidean_length (quat_set False (1 / sqrt 3) (1 / sqrt 3) 0 0) = sqrt (2 / 3)
   \<and> quat_length_squared True (quat_set True 1 1 0 0) = 4
   \<and> quat_normalize True (quat_set True 1 1 0 0) = Some (quat_set True 0 0 (1 / 2) (1 / 2))
   \<and> euclidean_length (quat_set True 0 0 (1 / 2) (1 / 2)) = sqrt (1 / 2)
   \<and> sqrt (2 / 3) \<noteq> (1::real) \<and> sqrt (1 / 2) \<noteq> (1::real)"
proof -
  have scalar: "quat_normalize False (quat_set False 1 1 0 0)
       = Some (quat_set False (1 / sqrt 3) (1 / sqrt 3) 0 0)"
    by (simp add: quat_normalize_def quat_length_reciprocal_def quat_length_squared_quat_set
        quat_get_set)
  have sse2: "quat_normalize True (quat_set True 1 1 0 0)
       = Some (quat_set True 0 0 (1 / 2) (1 / 2))"
    by (simp add: quat_normalize_def quat_length_reciprocal_def quat_length_squared_quat_set
        quat_get_set)
  show ?thesis
    unfolding scalar sse2
    by (simp add: euclidean_length_quat_set quat_length_squared_quat_set)
qed

text \<open>
  C10 (deg2rad). For every input, \<open>deg2rad\<close> returns (deg / 360) times the constant
  3.141592654, which is half of the conventional conversion deg times the constant over
  180; at 180 degrees it returns half of the constant and not the constant.
\<close>

theorem deg2rad_half_of_conventional:
  "deg2rad deg = (deg / 360) * 3.141592654
   \<and> deg2rad deg = (deg * ACL_PI_64 / 180) / 2
   \<and> deg2rad 180 = ACL_PI_64 / 2
   \<and> deg2rad 180 \<noteq> ACL_PI_64"
  by (simp add: deg2rad_def ACL_PI_64_def)

section \<open>Properties of the encoder\<close>

subsection \<open>Conversions between the integer widths\<close>

lemma bind_Some_iff: "(Option.bind m f = Some y) = (\<exists>x. m = Some x \<and> f x = Some y)"
  by (cases m) auto

lemma take_bit_32_64_add:
  "take_bit 32 (take_bit 64 x + take_bit 64 y) = take_bit 32 (x + y)" for x y :: int
proof -
  have "take_bit 32 (take_bit 64 x + take_bit 64 y)
      = take_bit 32 (take_bit 32 (take_bit 64 x) + take_bit 32 (take_bit 64 y))"
    by (simp only: take_bit_add)
  also have "\<dots> = take_bit 32 (take_bit 32 x + take_bit 32 y)"
    by (simp add: take_bit_take_bit)
  also have "\<dots> = take_bit 32 (x + y)"
    by (simp only: take_bit_add)
  finally show ?thesis .
qed

lemma take_bit_32_64_mult:
  "take_bit 32 (take_bit 64 x * take_bit 64 y) = take_bit 32 (x * y)" for x y :: int
proof -
  have "take_bit 32 (take_bit 64 x * take_bit 64 y)
      = take_bit 32 (take_bit 32 (take_bit 64 x) * take_bit 32 (take_bit 64 y))"
    by (simp only: take_bit_mult)
  also have "\<dots> = take_bit 32 (take_bit 32 x * take_bit 32 y)"
    by (simp add: take_bit_take_bit)
  also have "\<dots> = take_bit 32 (x * y)"
    by (simp only: take_bit_mult)
  finally show ?thesis .
qed

lemma ucast_add_down: "(ucast ((a::size_t) + b) :: uint32_t) = ucast a + ucast b"
  using take_bit_32_64_add by transfer simp

lemma ucast_mult_down: "(ucast ((a::size_t) * b) :: uint32_t) = ucast a * ucast b"
  using take_bit_32_64_mult by transfer simp

lemma ucast_up_down: "(ucast (ucast (a::uint32_t) :: size_t) :: uint32_t) = a"
  by (rule bit_word_eqI) (auto simp add: bit_simps)

lemma ucast_and_down: "(ucast ((a::size_t) AND b) :: uint32_t) = ucast a AND ucast b"
  by transfer simp

lemma ucast_not_down: "(ucast (NOT (a::size_t)) :: uint32_t) = NOT (ucast a)"
  by (rule bit_word_eqI) (auto simp add: bit_simps)

lemma mask_down: "(ucast (NOT ((4::size_t) - 1)) :: uint32_t) = NOT 3"
  by (simp add: ucast_not_down)

text \<open>
  Aligning a 32-bit value to 4 through \<open>size_t\<close> is the 32-bit computation: the cast
  back drops the upper half, which the sum and the mask do not read.
\<close>

lemma align_to_4: "align_to v 4 = (v + 3) AND NOT 3"
proof -
  have "align_to v 4 = ucast ((ucast v + ((4::size_t) - 1)) AND NOT ((4::size_t) - 1))"
    by (simp only: align_to_def)
  also have "\<dots> = (ucast (ucast v + ((4::size_t) - 1)) :: uint32_t) AND ucast (NOT ((4::size_t) - 1))"
    by (simp only: ucast_and_down)
  also have "\<dots> = (v + 3) AND NOT 3"
    by (simp only: mask_down ucast_add_down ucast_up_down) simp
  finally show ?thesis .
qed

text \<open>
  Without overflow, \<open>align_to\<close> at 4 is the least multiple of 4 that is not below the
  value.
\<close>

lemma and_not_3: "(w::uint32_t) AND NOT 3 = push_bit 2 (drop_bit 2 w)"
proof -
  have m: "(3::uint32_t) = mask 2"
    by (simp add: mask_eq_exp_minus_1)
  have s: "Suc (Suc (n - 2)) = n" if "2 \<le> n" for n :: nat
    using that by simp
  show ?thesis
    unfolding m by (rule bit_word_eqI) (auto simp: bit_simps not_less s)
qed

lemma unat_and_not_3: "unat ((w::uint32_t) AND NOT 3) = (unat w div 4) * 4"
proof -
  have "unat (push_bit 2 (drop_bit 2 w)) = take_bit 32 (push_bit 2 (drop_bit 2 (unat w)))"
    by (simp add: unsigned_push_bit_eq unat_drop_bit_eq)
  also have "push_bit 2 (drop_bit 2 (unat w)) = (unat w div 4) * 4"
    by (simp add: push_bit_eq_mult drop_bit_eq_div)
  also have "take_bit 32 ((unat w div 4) * 4) = (unat w div 4) * 4"
  proof -
    have "(unat w div 4) * 4 \<le> unat w"
      by simp
    also have "unat w < 2 ^ 32"
      using unsigned_less [of w, where ?'a = nat] by simp
    finally show ?thesis
      by (simp add: take_bit_nat_eq_self)
  qed
  finally show ?thesis
    by (simp only: and_not_3)
qed

lemma align_to_4_aligns_up:
  assumes "unat v + 3 < 2 ^ 32"
  shows "unat (align_to v 4) = ((unat v + 3) div 4) * 4"
proof -
  have "unat (v + 3) = unat v + 3"
    using assms by (simp add: unat_add_lem [THEN iffD1])
  then show ?thesis
    by (simp only: align_to_4 unat_and_not_3)
qed

lemma PtrOffset_Some: "PtrOffset v = Some off \<Longrightarrow> off = ucast v"
  by (auto simp: PtrOffset_def safe_static_cast_def split: if_splits)

subsection \<open>The encoder on the two example clips\<close>

lemmas example_defs = example_externals_def example_clip_def example_settings_def
  constant_clip_def per_clip_settings_def rotation_range_size_def translation_range_size_def

lemmas compress_clip_eval = compress_clip_def Let_def ACL_TRY_ASSERT_def are_enum_flags_set_def
  is_enum_flag_set_def get_bitset_size_def NUM_TRACKS_PER_BONE_def sizeof_uint32_t_def
  sizeof_uint8_t_def alignof_uint8_t_def allocate_type_array_def align_to_4 InvalidPtrOffset_def
  PtrOffset_def safe_static_cast_def

lemma example_run:
  "compress_clip example_externals example_clip () example_settings =
     Some (Ptr \<lparr>clip_size = 216, clip_algorithm_type = UniformlySampled,
             clip_header = \<lparr>header_num_bones = 2, header_rotation_format = Quat_128,
               header_translation_format = Vector3_48,
               header_range_reduction = {PerClip, Translations},
               header_num_samples = 3, header_sample_rate = 30,
               header_num_animated_rotation_tracks = 1,
               header_num_animated_translation_tracks = 2,
               default_tracks_bitset_offset = 44, constant_tracks_bitset_offset = 48,
               constant_track_data_offset = 52, clip_range_data_offset = 68,
               track_data_offset = 116\<rparr>\<rparr>,
       [Call_convert_clip_to_streams example_clip,
        Call_convert_rotation_streams ((1, 0, 1, 2), [1]) Quat_128,
        Call_compact_constant_streams ((1, 0, 1, 2), [1, 2]) 0.00001,
        Call_normalize_rotation_streams ((1, 0, 1, 2), [1, 2, 3]) {PerClip, Translations} Quat_128,
        Call_normalize_translation_streams ((1, 0, 1, 2), [1, 2, 3, 4]) {PerClip, Translations},
        Call_get_stream_range_data_size ((1, 0, 1, 2), [1, 2, 3, 4, 5]),
        Call_quantize_rotation_streams ((1, 0, 1, 2), [1, 2, 3, 4, 5]) Quat_128,
        Call_quantize_translation_streams ((1, 0, 1, 2), [1, 2, 3, 4, 5, 6]) Vector3_48,
        Call_get_num_animated_streams ((1, 0, 1, 2), [1, 2, 3, 4, 5, 6, 7]),
        Call_allocate 216 1,
        Call_make_compressed_clip 216 UniformlySampled,
        Call_write_default_track_bitset ((1, 0, 1, 2), [1, 2, 3, 4, 5, 6, 7]) 1,
        Call_write_constant_track_bitset ((1, 0, 1, 2), [1, 2, 3, 4, 5, 6, 7]) 1,
        Call_write_constant_track_data ((1, 0, 1, 2), [1, 2, 3, 4, 5, 6, 7]) 16,
        Call_write_animated_track_data ((1, 0, 1, 2), [1, 2, 3, 4, 5, 6, 7]) 84,
        Call_write_range_track_data ((1, 0, 1, 2), [1, 2, 3, 4, 5, 6, 7]) 48,
        Call_finalize_compressed_clip,
        Call_deallocate_bone_streams ((1, 0, 1, 2), [1, 2, 3, 4, 5, 6, 7])])"
  by (simp add: compress_clip_eval example_defs)

lemma constant_run:
  "compress_clip example_externals constant_clip () per_clip_settings =
     Some (Ptr \<lparr>clip_size = 96, clip_algorithm_type = UniformlySampled,
             clip_header = \<lparr>header_num_bones = 1, header_rotation_format = Quat_128,
               header_translation_format = Vector3_96,
               header_range_reduction = {PerClip, Translations},
               header_num_samples = 2, header_sample_rate = 30,
               header_num_animated_rotation_tracks = 0,
               header_num_animated_translation_tracks = 0,
               default_tracks_bitset_offset = 44, constant_tracks_bitset_offset = 48,
               constant_track_data_offset = 52, clip_range_data_offset = 80,
               track_data_offset = 0xFFFFFFFF\<rparr>\<rparr>,
       [Call_convert_clip_to_streams constant_clip,
        Call_convert_rotation_streams ((1, 1, 0, 0), [1]) Quat_128,
        Call_compact_constant_streams ((1, 1, 0, 0), [1, 2]) 0.00001,
        Call_normalize_rotation_streams ((1, 1, 0, 0), [1, 2, 3]) {PerClip, Translations} Quat_128,
        Call_normalize_translation_streams ((1, 1, 0, 0), [1, 2, 3, 4]) {PerClip, Translations},
        Call_get_stream_range_data_size ((1, 1, 0, 0), [1, 2, 3, 4, 5]),
        Call_quantize_rotation_streams ((1, 1, 0, 0), [1, 2, 3, 4, 5]) Quat_128,
        Call_quantize_translation_streams ((1, 1, 0, 0), [1, 2, 3, 4, 5, 6]) Vector3_96,
        Call_get_num_animated_streams ((1, 1, 0, 0), [1, 2, 3, 4, 5, 6, 7]),
        Call_allocate 96 1,
        Call_make_compressed_clip 96 UniformlySampled,
        Call_write_default_track_bitset ((1, 1, 0, 0), [1, 2, 3, 4, 5, 6, 7]) 1,
        Call_write_constant_track_bitset ((1, 1, 0, 0), [1, 2, 3, 4, 5, 6, 7]) 1,
        Call_write_constant_track_data ((1, 1, 0, 0), [1, 2, 3, 4, 5, 6, 7]) 28,
        Call_write_range_track_data ((1, 1, 0, 0), [1, 2, 3, 4, 5, 6, 7]) 0,
        Call_finalize_compressed_clip,
        Call_deallocate_bone_streams ((1, 1, 0, 0), [1, 2, 3, 4, 5, 6, 7])])"
  by (simp add: compress_clip_eval example_defs)

lemma example_num_samples: "get_num_samples example_clip = 3"
  by (simp add: example_clip_def)

lemma example_formats:
  "rotation_format example_settings = Quat_128"
  "translation_format example_settings = Vector3_48"
  by (simp_all add: example_settings_def)

lemma example_track_counts:
  "track_counts example_externals example_clip example_settings = (1, 0, 1, 2)"
  by (simp add: track_counts_def quantized_streams_def normalized_streams_def
      compacted_streams_def example_defs)

lemma constant_track_counts:
  "track_counts example_externals constant_clip per_clip_settings = (1, 1, 0, 0)"
  by (simp add: track_counts_def quantized_streams_def normalized_streams_def
      compacted_streams_def example_defs)

lemma example_range_data_size:
  "range_data_size example_externals example_clip example_settings = 48"
  by (simp add: range_data_size_def normalized_streams_def compacted_streams_def example_defs)

lemma constant_range_data_size:
  "range_data_size example_externals constant_clip per_clip_settings = 0"
  by (simp add: range_data_size_def normalized_streams_def compacted_streams_def example_defs)

lemma mixed_run:
  "compress_clip example_externals mixed_clip () mixed_settings =
     Some (Ptr \<lparr>clip_size = 136, clip_algorithm_type = UniformlySampled,
             clip_header = \<lparr>header_num_bones = 3, header_rotation_format = Quat_48,
               header_translation_format = Vector3_48,
               header_range_reduction = {PerClip, Translations},
               header_num_samples = 2, header_sample_rate = 30,
               header_num_animated_rotation_tracks = 1,
               header_num_animated_translation_tracks = 1,
               default_tracks_bitset_offset = 44, constant_tracks_bitset_offset = 48,
               constant_track_data_offset = 52, clip_range_data_offset = 72,
               track_data_offset = 96\<rparr>\<rparr>,
       [Call_convert_clip_to_streams mixed_clip,
        Call_convert_rotation_streams ((1, 1, 1, 1), [1]) Quat_48,
        Call_compact_constant_streams ((1, 1, 1, 1), [1, 2]) 0.00001,
        Call_normalize_rotation_streams ((1, 1, 1, 1), [1, 2, 3]) {PerClip, Translations} Quat_48,
        Call_normalize_translation_streams ((1, 1, 1, 1), [1, 2, 3, 4]) {PerClip, Translations},
        Call_get_stream_range_data_size ((1, 1, 1, 1), [1, 2, 3, 4, 5]),
        Call_quantize_rotation_streams ((1, 1, 1, 1), [1, 2, 3, 4, 5]) Quat_48,
        Call_quantize_translation_streams ((1, 1, 1, 1), [1, 2, 3, 4, 5, 6]) Vector3_48,
        Call_get_num_animated_streams ((1, 1, 1, 1), [1, 2, 3, 4, 5, 6, 7]),
        Call_allocate 136 1,
        Call_make_compressed_clip 136 UniformlySampled,
        Call_write_default_track_bitset ((1, 1, 1, 1), [1, 2, 3, 4, 5, 6, 7]) 1,
        Call_write_constant_track_bitset ((1, 1, 1, 1), [1, 2, 3, 4, 5, 6, 7]) 1,
        Call_write_constant_track_data ((1, 1, 1, 1), [1, 2, 3, 4, 5, 6, 7]) 18,
        Call_write_animated_track_data ((1, 1, 1, 1), [1, 2, 3, 4, 5, 6, 7]) 24,
        Call_write_range_track_data ((1, 1, 1, 1), [1, 2, 3, 4, 5, 6, 7]) 24,
        Call_finalize_compressed_clip,
        Call_deallocate_bone_streams ((1, 1, 1, 1), [1, 2, 3, 4, 5, 6, 7])])"
  by (simp add: compress_clip_eval example_defs mixed_clip_def mixed_settings_def)

lemma padded_run:
  "compress_clip example_externals padded_clip () mixed_settings =
     Some (Ptr \<lparr>clip_size = 136, clip_algorithm_type = UniformlySampled,
             clip_header = \<lparr>header_num_bones = 5, header_rotation_format = Quat_48,
               header_translation_format = Vector3_48,
               header_range_reduction = {PerClip, Translations},
               header_num_samples = 2, header_sample_rate = 30,
               header_num_animated_rotation_tracks = 1,
               header_num_animated_translation_tracks = 1,
               default_tracks_bitset_offset = 44, constant_tracks_bitset_offset = 48,
               constant_track_data_offset = 52, clip_range_data_offset = 72,
               track_data_offset = 96\<rparr>\<rparr>,
       [Call_convert_clip_to_streams padded_clip,
        Call_convert_rotation_streams ((1, 1, 1, 1), [1]) Quat_48,
        Call_compact_constant_streams ((1, 1, 1, 1), [1, 2]) 0.00001,
        Call_normalize_rotation_streams ((1, 1, 1, 1), [1, 2, 3]) {PerClip, Translations} Quat_48,
        Call_normalize_translation_streams ((1, 1, 1, 1), [1, 2, 3, 4]) {PerClip, Translations},
        Call_get_stream_range_data_size ((1, 1, 1, 1), [1, 2, 3, 4, 5]),
        Call_quantize_rotation_streams ((1, 1, 1, 1), [1, 2, 3, 4, 5]) Quat_48,
        Call_quantize_translation_streams ((1, 1, 1, 1), [1, 2, 3, 4, 5, 6]) Vector3_48,
        Call_get_num_animated_streams ((1, 1, 1, 1), [1, 2, 3, 4, 5, 6, 7]),
        Call_allocate 136 1,
        Call_make_compressed_clip 136 UniformlySampled,
        Call_write_default_track_bitset ((1, 1, 1, 1), [1, 2, 3, 4, 5, 6, 7]) 1,
        Call_write_constant_track_bitset ((1, 1, 1, 1), [1, 2, 3, 4, 5, 6, 7]) 1,
        Call_write_constant_track_data ((1, 1, 1, 1), [1, 2, 3, 4, 5, 6, 7]) 18,
        Call_write_animated_track_data ((1, 1, 1, 1), [1, 2, 3, 4, 5, 6, 7]) 24,
        Call_write_range_track_data ((1, 1, 1, 1), [1, 2, 3, 4, 5, 6, 7]) 24,
        Call_finalize_compressed_clip,
        Call_deallocate_bone_streams ((1, 1, 1, 1), [1, 2, 3, 4, 5, 6, 7])])"
  by (simp add: compress_clip_eval example_defs padded_clip_def mixed_settings_def)

text \<open>
  On the long clip the product of the 16 bytes of a sample and the 268435456 samples is
  two to the power 32, which is 0 in \<open>uint32_t\<close>: the buffer has the 68 bytes of the
  preamble, the header and the two bitsets, and the writer of the animated data is not
  called.
\<close>

lemma long_run:
  "compress_clip example_externals long_clip () CompressionSettings_default =
     Some (Ptr \<lparr>clip_size = 68, clip_algorithm_type = UniformlySampled,
             clip_header = \<lparr>header_num_bones = 1, header_rotation_format = Quat_128,
               header_translation_format = Vector3_96,
               header_range_reduction = {},
               header_num_samples = 268435456, header_sample_rate = 30,
               header_num_animated_rotation_tracks = 1,
               header_num_animated_translation_tracks = 0,
               default_tracks_bitset_offset = 44, constant_tracks_bitset_offset = 48,
               constant_track_data_offset = 0xFFFFFFFF, clip_range_data_offset = 0xFFFFFFFF,
               track_data_offset = 0xFFFFFFFF\<rparr>\<rparr>,
       [Call_convert_clip_to_streams long_clip,
        Call_convert_rotation_streams ((0, 0, 1, 0), [1]) Quat_128,
        Call_compact_constant_streams ((0, 0, 1, 0), [1, 2]) 0.00001,
        Call_quantize_rotation_streams ((0, 0, 1, 0), [1, 2, 3]) Quat_128,
        Call_quantize_translation_streams ((0, 0, 1, 0), [1, 2, 3, 6]) Vector3_96,
        Call_get_num_animated_streams ((0, 0, 1, 0), [1, 2, 3, 6, 7]),
        Call_allocate 68 1,
        Call_make_compressed_clip 68 UniformlySampled,
        Call_write_default_track_bitset ((0, 0, 1, 0), [1, 2, 3, 6, 7]) 1,
        Call_write_constant_track_bitset ((0, 0, 1, 0), [1, 2, 3, 6, 7]) 1,
        Call_finalize_compressed_clip,
        Call_deallocate_bone_streams ((0, 0, 1, 0), [1, 2, 3, 6, 7])])"
  by (simp add: compress_clip_eval example_defs long_clip_def CompressionSettings_default_def)

lemma mixed_formats:
  "rotation_format mixed_settings = Quat_48"
  "translation_format mixed_settings = Vector3_48"
  by (simp_all add: mixed_settings_def)

lemma mixed_num_samples:
  "get_num_samples mixed_clip = 2" "get_num_samples padded_clip = get_num_samples mixed_clip"
  "get_num_bones mixed_clip = 3" "get_num_bones padded_clip = 5"
  by (simp_all add: mixed_clip_def padded_clip_def)

lemma mixed_track_counts:
  "track_counts example_externals mixed_clip mixed_settings = (1, 1, 1, 1)"
  by (simp add: track_counts_def quantized_streams_def normalized_streams_def
      compacted_streams_def example_defs mixed_clip_def mixed_settings_def)

lemma padded_track_counts:
  "track_counts example_externals padded_clip mixed_settings = (1, 1, 1, 1)"
  by (simp add: track_counts_def quantized_streams_def normalized_streams_def
      compacted_streams_def example_defs padded_clip_def mixed_settings_def)

lemma long_facts:
  "unat (get_num_samples long_clip) = 268435456"
  "unat (get_packed_rotation_size (rotation_format CompressionSettings_default)) = 16"
  by (simp_all add: long_clip_def CompressionSettings_default_def)

lemma long_track_counts:
  "track_counts example_externals long_clip CompressionSettings_default = (0, 0, 1, 0)"
  by (simp add: track_counts_def quantized_streams_def normalized_streams_def
      compacted_streams_def example_defs long_clip_def CompressionSettings_default_def)

subsection \<open>Rejected inputs\<close>

text \<open>
  C6 (empty clip). For every clip with zero bones or zero samples, \<open>compress_clip\<close>
  returns \<open>nullptr\<close> and has made no call at all: nothing is allocated (neither the
  buffer nor, inside a stage, anything else) and no stage of the pipeline runs.
\<close>

theorem compress_clip_empty_clip:
  "get_num_bones clip = 0 \<or> get_num_samples clip = 0 \<Longrightarrow>
   compress_clip ext clip skeleton settings = Some (nullptr, [])"
  by (auto simp: compress_clip_def ACL_TRY_ASSERT_def Let_def)

theorem compress_clip_empty_clip_witness:
  "(get_num_bones empty_clip = 0 \<or> get_num_samples empty_clip = 0)
   \<and> compress_clip example_externals empty_clip () CompressionSettings_default = Some (nullptr, [])"
proof -
  have h: "get_num_bones empty_clip = 0 \<or> get_num_samples empty_clip = 0"
    by (simp add: empty_clip_def)
  from h compress_clip_empty_clip [OF h] show ?thesis
    by simp
qed

text \<open>
  C1 (format incompatibility). For every clip, skeleton and settings whose translation
  format is not \<open>Vector3_96\<close> and whose range reduction flags do not include both
  \<open>PerClip\<close> and \<open>Translations\<close>, \<open>compress_clip\<close> returns \<open>nullptr\<close> and has
  made no call: no buffer is allocated.
\<close>

theorem compress_clip_incompatible_format:
  "translation_format settings \<noteq> Vector3_96 \<Longrightarrow>
   \<not> {PerClip, Translations} \<subseteq> range_reduction settings \<Longrightarrow>
   compress_clip ext clip skeleton settings = Some (nullptr, [])"
  by (auto simp: compress_clip_def ACL_TRY_ASSERT_def are_enum_flags_set_def Let_def)

theorem compress_clip_incompatible_format_witness:
  "translation_format incompatible_settings \<noteq> Vector3_96
   \<and> \<not> {PerClip, Translations} \<subseteq> range_reduction incompatible_settings
   \<and> compress_clip example_externals example_clip () incompatible_settings = Some (nullptr, [])"
proof -
  have f: "translation_format incompatible_settings \<noteq> Vector3_96"
    by (simp add: incompatible_settings_def)
  have r: "\<not> {PerClip, Translations} \<subseteq> range_reduction incompatible_settings"
    by (simp add: incompatible_settings_def)
  from f r compress_clip_incompatible_format [OF f r] show ?thesis
    by simp
qed

subsection \<open>The order of the stages\<close>

text \<open>
  C7 (pipeline order). The stages of a call of \<open>compress_clip\<close>, in the order of the
  calls: none when the call is rejected; otherwise the conversion of the clip to streams,
  the conversion of the rotations, the compaction of the constant tracks with the
  tolerance 0.00001, then, exactly when the \<open>PerClip\<close> flag is set, the normalization
  of the rotations and of the translations, then the quantization of the rotations and of
  the translations. Each stage is given the streams its predecessor returned.
\<close>

theorem compress_clip_stage_order:
  assumes "compress_clip ext clip skeleton settings = Some (r, calls)"
  shows "filter is_stage_call calls =
    (if r = nullptr then []
     else
      (let num_bones = get_num_bones clip;
           s0 = convert_clip_to_streams ext clip;
           s1 = convert_rotation_streams ext s0 num_bones (rotation_format settings);
           s2 = compact_constant_streams ext s1 num_bones 0.00001;
           s3 = normalize_rotation_streams ext s2 num_bones
                  (range_reduction settings) (rotation_format settings);
           s4 = normalize_translation_streams ext s3 num_bones (range_reduction settings);
           s5 = (if PerClip \<in> range_reduction settings then s4 else s2);
           s6 = quantize_rotation_streams ext s5 num_bones (rotation_format settings)
       in [Call_convert_clip_to_streams clip,
           Call_convert_rotation_streams s0 (rotation_format settings),
           Call_compact_constant_streams s1 0.00001]
          @ (if PerClip \<in> range_reduction settings
             then [Call_normalize_rotation_streams s2
                     (range_reduction settings) (rotation_format settings),
                   Call_normalize_translation_streams s3 (range_reduction settings)]
             else [])
          @ [Call_quantize_rotation_streams s5 (rotation_format settings),
             Call_quantize_translation_streams s6 (translation_format settings)]))"
  using assms
  by (auto simp: compress_clip_def Let_def bind_Some_iff allocate_type_array_def
      is_enum_flag_set_def split: if_splits prod.splits)

theorem compress_clip_stage_order_witness:
  "(case compress_clip example_externals example_clip () example_settings of
      Some (Ptr cc, calls) \<Rightarrow>
        filter is_stage_call calls =
          [Call_convert_clip_to_streams example_clip,
           Call_convert_rotation_streams ((1, 0, 1, 2), [1]) Quat_128,
           Call_compact_constant_streams ((1, 0, 1, 2), [1, 2]) 0.00001,
           Call_normalize_rotation_streams ((1, 0, 1, 2), [1, 2, 3]) {PerClip, Translations} Quat_128,
           Call_normalize_translation_streams ((1, 0, 1, 2), [1, 2, 3, 4]) {PerClip, Translations},
           Call_quantize_rotation_streams ((1, 0, 1, 2), [1, 2, 3, 4, 5]) Quat_128,
           Call_quantize_translation_streams ((1, 0, 1, 2), [1, 2, 3, 4, 5, 6]) Vector3_48]
    | _ \<Rightarrow> False)"
  using compress_clip_stage_order [OF example_run]
  by (simp add: example_run)

subsection \<open>The size of the buffer and of its regions\<close>

text \<open>
  C4 (buffer size and alignment). For every successful \<open>compress_clip\<close>, the size of
  the buffer is the size of the preamble plus the size of the header plus two bitsets of
  \<open>bitset_size\<close> 32-bit words plus the constant data size, aligned up to 4, plus the
  range data size, aligned up to 4, plus the animated data size of one sample times the
  number of samples, in the 32-bit arithmetic of the code. The one allocation that
  \<open>compress_clip\<close> makes asks for that many bytes with the alignment
  \<open>alignof(uint8_t)\<close>, which is 1 and not 16: the literal 16 of the source is taken by
  the overload that forwards it to a constructor.
\<close>

theorem compress_clip_buffer_size_and_alignment:
  assumes "compress_clip ext clip skeleton settings = Some (Ptr cc, calls)"
    and "track_counts ext clip settings = (n_cr, n_ct, n_ar, n_at)"
  shows "clip_size cc =
      align_to
        (align_to
           (ucast (sizeof_CompressedClip ext) + ucast (sizeof_FullPrecisionHeader ext)
              + 4 * clip_bitset_size clip + 4 * clip_bitset_size clip
              + (get_packed_rotation_size (rotation_format settings) * n_cr + 12 * n_ct)) 4
         + range_data_size ext clip settings) 4
      + (get_packed_rotation_size (rotation_format settings) * n_ar
          + get_packed_vector_size (translation_format settings) * n_at) * get_num_samples clip
    \<and> filter is_allocate_call calls = [Call_allocate (ucast (clip_size cc)) alignof_uint8_t]
    \<and> alignof_uint8_t \<noteq> 16"
  using assms
  by (auto simp: compress_clip_def Let_def bind_Some_iff allocate_type_array_def
      is_enum_flag_set_def track_counts_def quantized_streams_def normalized_streams_def
      compacted_streams_def range_data_size_def clip_bitset_size_def sizeof_uint32_t_def
      sizeof_uint8_t_def alignof_uint8_t_def ucast_add_down ucast_mult_down ucast_up_down
      split: if_splits prod.splits)

theorem compress_clip_buffer_size_and_alignment_witness:
  "(case compress_clip example_externals example_clip () example_settings of
      Some (Ptr cc, calls) \<Rightarrow>
        clip_size cc = 216
        \<and> filter is_allocate_call calls = [Call_allocate 216 1]
    | _ \<Rightarrow> False)"
  using compress_clip_buffer_size_and_alignment [OF example_run example_track_counts]
  by (simp add: example_run alignof_uint8_t_def)

lemma region_sizes_word:
  assumes "compress_clip ext clip skeleton settings = Some (Ptr cc, calls)"
    and "track_counts ext clip settings = (n_cr, n_ct, n_ar, n_at)"
  shows "constant_region_size calls =
           get_packed_rotation_size (rotation_format settings) * n_cr + 12 * n_ct"
    and "animated_region_size calls =
           (get_packed_rotation_size (rotation_format settings) * n_ar
             + get_packed_vector_size (translation_format settings) * n_at) * get_num_samples clip"
  using assms
  by (auto simp: compress_clip_def Let_def bind_Some_iff allocate_type_array_def
      is_enum_flag_set_def track_counts_def quantized_streams_def normalized_streams_def
      compacted_streams_def constant_region_size_def animated_region_size_def word_gt_0
      split: if_splits prod.splits)

lemma unat_sum_of_products:
  "unat ((a::uint32_t) * b + c * d) = (unat a * unat b + unat c * unat d) mod 2 ^ 32"
  by (simp add: unat_word_ariths mod_simps)

lemma unat_product_of_sum:
  "unat (((a::uint32_t) * b + c * d) * e)
     = ((unat a * unat b + unat c * unat d) * unat e) mod 2 ^ 32"
  by (simp add: unat_word_ariths mod_simps)

text \<open>
  C5 (bytes per track), as the claim states it, at the clip of one bone whose rotation is
  animated over 268435456 samples, compressed with the default settings: the call
  succeeds, the clip has one animated rotation track of 16 bytes a sample, and the animated
  region has no byte at all (the writer of the animated data is not called, and the offset
  of the animated data is the all-ones sentinel), where the claim has 268435456 samples of
  16 bytes in it.
\<close>

theorem compress_clip_animated_region_wraps:
  "(case compress_clip example_externals long_clip () CompressionSettings_default of
      Some (Ptr cc, calls) \<Rightarrow>
        track_counts example_externals long_clip CompressionSettings_default = (0, 0, 1, 0)
        \<and> unat (get_num_samples long_clip) = 268435456
        \<and> unat (get_packed_rotation_size (rotation_format CompressionSettings_default)) = 16
        \<and> animated_region_size calls = 0
        \<and> filter (\<lambda>c. animated_bytes_written c \<noteq> 0) calls = []
        \<and> track_data_offset (clip_header cc) = InvalidPtrOffset
        \<and> clip_size cc = 68
        \<and> 16 * 268435456 \<noteq> (0::nat)
    | _ \<Rightarrow> False)"
  by (simp add: long_run long_track_counts long_facts animated_region_size_def
      InvalidPtrOffset_def)

text \<open>
  C5 (bytes per track), amended. For every successful \<open>compress_clip\<close>, with the
  sizes counted as the encoder counts them, in \<open>uint32_t\<close>, that is modulo two to the
  power 32: the constant region holds one sample of the packed size of the chosen rotation
  format for each constant rotation track and 12 bytes, the width of \<open>Vector3_96\<close>,
  for each constant translation track, whatever the translation format; the animated region
  holds, for each of the \<open>num_samples\<close> samples, the packed size of the chosen rotation
  format for each animated rotation track and of the chosen translation format for each
  animated translation track. A default track contributes no byte: a second clip with the
  same constant and animated tracks and the same number of samples, whatever its number of
  bones and so of default tracks, has regions of the same sizes.
\<close>

theorem compress_clip_region_sizes:
  assumes "compress_clip ext clip skeleton settings = Some (Ptr cc, calls)"
    and "track_counts ext clip settings = (n_cr, n_ct, n_ar, n_at)"
  shows "unat (constant_region_size calls) =
           (unat (get_packed_rotation_size (rotation_format settings)) * unat n_cr
             + 12 * unat n_ct) mod 2 ^ 32
    \<and> unat (animated_region_size calls) =
           ((unat (get_packed_rotation_size (rotation_format settings)) * unat n_ar
             + unat (get_packed_vector_size (translation_format settings)) * unat n_at)
            * unat (get_num_samples clip)) mod 2 ^ 32
    \<and> unat (get_packed_vector_size Vector3_96) = 12
    \<and> (\<forall>clip' skeleton' cc' calls'.
          compress_clip ext clip' skeleton' settings = Some (Ptr cc', calls')
          \<and> track_counts ext clip' settings = (n_cr, n_ct, n_ar, n_at)
          \<and> get_num_samples clip' = get_num_samples clip
          \<longrightarrow> constant_region_size calls' = constant_region_size calls
              \<and> animated_region_size calls' = animated_region_size calls)"
proof -
  note w = region_sizes_word [OF assms]
  have c: "unat (constant_region_size calls) =
           (unat (get_packed_rotation_size (rotation_format settings)) * unat n_cr
             + 12 * unat n_ct) mod 2 ^ 32"
    using unat_sum_of_products [of "get_packed_rotation_size (rotation_format settings)" n_cr 12 n_ct]
    by (simp only: w) simp
  have a: "unat (animated_region_size calls) =
           ((unat (get_packed_rotation_size (rotation_format settings)) * unat n_ar
             + unat (get_packed_vector_size (translation_format settings)) * unat n_at)
            * unat (get_num_samples clip)) mod 2 ^ 32"
    by (simp only: w unat_product_of_sum)
  have d: "\<forall>clip' skeleton' cc' calls'.
          compress_clip ext clip' skeleton' settings = Some (Ptr cc', calls')
          \<and> track_counts ext clip' settings = (n_cr, n_ct, n_ar, n_at)
          \<and> get_num_samples clip' = get_num_samples clip
          \<longrightarrow> constant_region_size calls' = constant_region_size calls
              \<and> animated_region_size calls' = animated_region_size calls"
    using w by (auto dest: region_sizes_word)
  from c a d show ?thesis
    by simp
qed

theorem compress_clip_region_sizes_witness:
  "(case (compress_clip example_externals mixed_clip () mixed_settings,
          compress_clip example_externals padded_clip () mixed_settings) of
      (Some (Ptr cc, calls), Some (Ptr cc', calls')) \<Rightarrow>
        track_counts example_externals mixed_clip mixed_settings = (1, 1, 1, 1)
        \<and> track_counts example_externals padded_clip mixed_settings = (1, 1, 1, 1)
        \<and> get_num_bones mixed_clip = 3
        \<and> get_num_bones padded_clip = 5
        \<and> get_num_samples padded_clip = get_num_samples mixed_clip
        \<and> unat (constant_region_size calls) = 18
        \<and> unat (animated_region_size calls) = 24
        \<and> constant_region_size calls' = constant_region_size calls
        \<and> animated_region_size calls' = animated_region_size calls
    | _ \<Rightarrow> False)"
proof -
  note sizes = compress_clip_region_sizes [OF mixed_run mixed_track_counts]
  note same = sizes [THEN conjunct2, THEN conjunct2, THEN conjunct2, rule_format,
      OF conjI [OF padded_run conjI [OF padded_track_counts mixed_num_samples(2)]]]
  from sizes [THEN conjunct1] sizes [THEN conjunct2, THEN conjunct1] same show ?thesis
    by (simp add: mixed_run padded_run mixed_track_counts padded_track_counts mixed_formats
        mixed_num_samples)
qed

subsection \<open>The offsets of the header\<close>

text \<open>
  C3 (region offsets), as the claim states it, at the clip with one constant rotation and
  one constant translation, compressed with \<open>PerClip | Translations\<close>: there is no
  animated track, so the range region is empty, and the offset of the range data is 80,
  the aligned end of the constant data, and not the all-ones sentinel.
\<close>

theorem compress_clip_empty_range_region_offset:
  "(case compress_clip example_externals constant_clip () per_clip_settings of
      Some (Ptr cc, calls) \<Rightarrow>
        range_data_size example_externals constant_clip per_clip_settings = 0
        \<and> clip_range_data_offset (clip_header cc) = 80
        \<and> clip_range_data_offset (clip_header cc) \<noteq> InvalidPtrOffset
    | _ \<Rightarrow> False)"
  by (simp add: constant_run constant_range_data_size InvalidPtrOffset_def)

text \<open>
  C3 (region offsets), amended. For every successful \<open>compress_clip\<close>: the bitset of
  the default tracks starts right after the header; the bitset of the constant tracks
  follows it; the offset of the constant data is the end of the two bitsets, or the
  all-ones sentinel when there is no constant data; the offset of the range data is the
  end of the constant data aligned up to 4 when the \<open>PerClip\<close> flag is set (also when
  the range region is empty), and the sentinel when the flag is not set; the offset of
  the animated data is the end of the range data aligned up to 4, or the sentinel when
  there is no animated data.
\<close>

theorem compress_clip_header_offsets:
  assumes "compress_clip ext clip skeleton settings = Some (Ptr cc, calls)"
    and "track_counts ext clip settings = (n_cr, n_ct, n_ar, n_at)"
  shows "(let header = clip_header cc;
              bitset_bytes = 4 * clip_bitset_size clip;
              constant_data_size =
                get_packed_rotation_size (rotation_format settings) * n_cr + 12 * n_ct;
              animated_data_size =
                (get_packed_rotation_size (rotation_format settings) * n_ar
                  + get_packed_vector_size (translation_format settings) * n_at)
                * get_num_samples clip;
              constant_data_end =
                ucast (sizeof_FullPrecisionHeader ext) + bitset_bytes + bitset_bytes
                  + constant_data_size
          in default_tracks_bitset_offset header = ucast (sizeof_FullPrecisionHeader ext)
           \<and> constant_tracks_bitset_offset header
                = default_tracks_bitset_offset header + bitset_bytes
           \<and> constant_track_data_offset header =
                (if constant_data_size = 0 then InvalidPtrOffset
                 else constant_tracks_bitset_offset header + bitset_bytes)
           \<and> clip_range_data_offset header =
                (if PerClip \<in> range_reduction settings then align_to constant_data_end 4
                 else InvalidPtrOffset)
           \<and> track_data_offset header =
                (if animated_data_size = 0 then InvalidPtrOffset
                 else align_to (align_to constant_data_end 4 + range_data_size ext clip settings) 4))"
  using assms
  by (auto simp: compress_clip_def Let_def bind_Some_iff allocate_type_array_def
      is_enum_flag_set_def track_counts_def quantized_streams_def normalized_streams_def
      compacted_streams_def range_data_size_def clip_bitset_size_def sizeof_uint32_t_def
      ucast_add_down ucast_mult_down ucast_up_down word_gt_0
      dest!: PtrOffset_Some split: if_splits prod.splits)

theorem compress_clip_header_offsets_witness:
  "(case compress_clip example_externals example_clip () example_settings of
      Some (Ptr cc, calls) \<Rightarrow>
        default_tracks_bitset_offset (clip_header cc) = 44
        \<and> constant_tracks_bitset_offset (clip_header cc) = 48
        \<and> constant_track_data_offset (clip_header cc) = 52
        \<and> clip_range_data_offset (clip_header cc) = 68
        \<and> track_data_offset (clip_header cc) = 116
    | _ \<Rightarrow> False)"
  using compress_clip_header_offsets [OF example_run example_track_counts]
  by (simp add: example_run)

section \<open>Properties of the animation tracks\<close>

lemma keys_arith:
  fixes n r :: nat and t :: real
  assumes n: "0 < n" and r: "0 < r"
  defines "d \<equiv> real (n - 1) / real r"
  defines "key \<equiv> clamp t 0 d * real r"
  shows "clamp t 0 d * (if d = 0 then 0 else real (n - 1) / d) = key"
    and "0 \<le> key"
    and "nat \<lfloor>key\<rfloor> \<le> n - 1"
    and "d \<le> t \<Longrightarrow> key = real (n - 1)"
proof -
  have rpos: "0 < real r"
    using r by simp
  have dnn: "0 \<le> d"
    by (simp add: d_def)
  show "clamp t 0 d * (if d = 0 then 0 else real (n - 1) / d) = key"
  proof (cases "d = 0")
    case True
    then show ?thesis
      by (simp add: key_def clamp_def)
  next
    case False
    then have "real (n - 1) \<noteq> 0"
      by (auto simp: d_def)
    then have "real (n - 1) / d = real r"
      using rpos by (simp add: d_def)
    with False show ?thesis
      by (simp add: key_def)
  qed
  show k0: "0 \<le> key"
    using dnn rpos by (simp add: key_def clamp_def)
  have dr: "d * real r = real (n - 1)"
    using rpos by (simp add: d_def)
  have "clamp t 0 d \<le> d"
    by (simp add: clamp_def)
  then have "key \<le> d * real r"
    unfolding key_def using rpos by (simp add: mult_right_mono)
  then have kle: "key \<le> real (n - 1)"
    by (simp only: dr)
  then have "\<lfloor>key\<rfloor> \<le> int (n - 1)"
    by (simp add: floor_le_iff)
  then show "nat \<lfloor>key\<rfloor> \<le> n - 1"
    by simp
  show "key = real (n - 1)" if "d \<le> t"
  proof -
    from that dnn have "clamp t 0 d = d"
      by (simp add: clamp_def)
    then show ?thesis
      by (simp only: key_def dr)
  qed
qed

lemma keys:
  assumes n: "m_num_samples track \<noteq> 0" and r: "m_sample_rate track \<noteq> 0"
  shows "calculate_interpolation_keys (m_num_samples track)
           (real (unat (m_num_samples track - 1)) / real (unat (m_sample_rate track))) t
         = (word_of_nat (frame0_of track t), word_of_nat (frame1_of track t), alpha_of track t)"
    and "frame0_of track t < unat (m_num_samples track)"
    and "frame1_of track t < unat (m_num_samples track)"
proof -
  let ?N = "m_num_samples track"
  let ?n = "unat ?N"
  let ?r = "unat (m_sample_rate track)"
  have n1: "unat (?N - 1) = ?n - 1"
    using n by (simp add: unat_minus_one)
  have npos: "0 < ?n"
    using n by (simp add: unat_gt_0)
  have rpos: "0 < ?r"
    using r by (simp add: unat_gt_0)
  note ka = keys_arith [OF npos rpos, of t, folded duration_of_def, folded sample_key_of_def]
  have dur: "real (unat (?N - 1)) / real ?r = duration_of track"
    by (simp only: n1 duration_of_def)
  have f0le: "frame0_of track t \<le> ?n - 1"
    using ka(3) by (simp only: frame0_of_def)
  show f0lt: "frame0_of track t < ?n"
    using f0le npos by simp
  show f1lt: "frame1_of track t < ?n"
    using npos by (simp add: frame1_of_def)
  have nlt: "?n < 2 ^ 32"
    using unsigned_less [of ?N, where ?'a = nat] by simp
  have w0: "(word_of_int \<lfloor>sample_key_of track t\<rfloor> :: uint32_t) = word_of_nat (frame0_of track t)"
    using ka(2) by (simp add: frame0_of_def)
  have u0: "unat (word_of_nat (frame0_of track t) :: uint32_t) = frame0_of track t"
    using f0lt by (intro le_unat_uoi [of _ "m_num_samples track"]) simp
  have u1: "unat ((word_of_nat (frame0_of track t) :: uint32_t) + 1) = frame0_of track t + 1"
    using f0lt nlt by (simp add: unat_word_ariths u0)
  have m: "min ((word_of_nat (frame0_of track t) :: uint32_t) + 1) (?N - 1)
            = word_of_nat (frame1_of track t)"
  proof -
    have "unat (min ((word_of_nat (frame0_of track t) :: uint32_t) + 1) (?N - 1))
            = frame1_of track t"
      by (simp add: min_def word_le_nat_alt u1 n1 frame1_of_def)
    moreover have "unat (word_of_nat (frame1_of track t) :: uint32_t) = frame1_of track t"
      using f1lt by (intro le_unat_uoi [of _ "m_num_samples track"]) simp
    ultimately show ?thesis
      by (simp only: word_unat_eq_iff)
  qed
  have "calculate_interpolation_keys ?N (duration_of track) t
         = (word_of_nat (frame0_of track t), word_of_nat (frame1_of track t), alpha_of track t)"
    unfolding calculate_interpolation_keys_def Let_def n1
    by (simp only: ka(1) w0 m u0 alpha_of_def)
  then show "calculate_interpolation_keys ?N (real (unat (?N - 1)) / real ?r) t
         = (word_of_nat (frame0_of track t), word_of_nat (frame1_of track t), alpha_of track t)"
    by (simp only: dur)
qed

lemma word_of_nat_less_num_samples:
  assumes "i < unat (w :: uint32_t)"
  shows "word_of_nat i < w" and "unat (word_of_nat i :: uint32_t) = i"
proof -
  show u: "unat (word_of_nat i :: uint32_t) = i"
    using assms by (intro le_unat_uoi [of _ w]) simp
  show "word_of_nat i < w"
    using assms by (simp only: word_less_nat_alt u)
qed

lemma rotation_sample_track_lerp:
  assumes "is_initialized track" and "m_type track = Rotation"
    and n: "m_num_samples track \<noteq> 0" and r: "m_sample_rate track \<noteq> 0"
  shows "rotation_sample_track track t =
           quat_lerp (rotation_sample track (frame0_of track t))
             (rotation_sample track (frame1_of track t)) (alpha_of track t)"
proof -
  note k = keys [OF n r, of t]
  note f0 = word_of_nat_less_num_samples [OF k(2)]
  note f1 = word_of_nat_less_num_samples [OF k(3)]
  have g0: "rotation_get_sample track (word_of_nat (frame0_of track t))
              = Inr (rotation_sample track (frame0_of track t))"
    using assms(1,2) f0 by (simp add: rotation_get_sample_def rotation_sample_def)
  have g1: "rotation_get_sample track (word_of_nat (frame1_of track t))
              = Inr (rotation_sample track (frame1_of track t))"
    using assms(1,2) f1 by (simp add: rotation_get_sample_def rotation_sample_def)
  show ?thesis
    unfolding rotation_sample_track_def Let_def k(1)
    using r by (simp add: g0 g1)
qed

lemma translation_sample_track_lerp:
  assumes "is_initialized track" and "m_type track = Translation"
    and n: "m_num_samples track \<noteq> 0" and r: "m_sample_rate track \<noteq> 0"
  shows "translation_sample_track track t =
           Inr (vector_lerp (translation_sample track (frame0_of track t))
                  (translation_sample track (frame1_of track t)) (alpha_of track t))"
proof -
  note k = keys [OF n r, of t]
  note f0 = word_of_nat_less_num_samples [OF k(2)]
  note f1 = word_of_nat_less_num_samples [OF k(3)]
  have g0: "translation_get_sample track (word_of_nat (frame0_of track t))
              = Inr (translation_sample track (frame0_of track t))"
    using assms(1,2) f0 by (simp add: translation_get_sample_def translation_sample_def)
  have g1: "translation_get_sample track (word_of_nat (frame1_of track t))
              = Inr (translation_sample track (frame1_of track t))"
    using assms(1,2) f1 by (simp add: translation_get_sample_def translation_sample_def)
  show ?thesis
    unfolding translation_sample_track_def Let_def k(1)
    using r by (simp add: g0 g1)
qed

lemma keys_past_the_end:
  assumes n: "m_num_samples track \<noteq> 0" and r: "m_sample_rate track \<noteq> 0"
    and t: "duration_of track \<le> t"
  shows "frame0_of track t = last_frame track"
    and "frame1_of track t = last_frame track"
    and "alpha_of track t = 0"
proof -
  have npos: "0 < unat (m_num_samples track)"
    using n by (simp add: unat_gt_0)
  have rpos: "0 < unat (m_sample_rate track)"
    using r by (simp add: unat_gt_0)
  note ka = keys_arith [OF npos rpos, of t, folded duration_of_def, folded sample_key_of_def]
  have key: "sample_key_of track t = real (last_frame track)"
    using ka(4) [OF t] by (simp only: last_frame_def)
  show f0: "frame0_of track t = last_frame track"
    by (simp add: frame0_of_def key)
  show "frame1_of track t = last_frame track"
    by (simp add: frame1_of_def f0 last_frame_def)
  show "alpha_of track t = 0"
    by (simp add: alpha_of_def f0 key)
qed

lemma quat_lerp_same:
  "quat_lerp a a 0 =
     (if quat_length_64 a = 0 then Inl Division_by_zero else Inr (quat_normalized a))"
  by (cases a) (simp add: quat_lerp_def quat_length_64_def quat_normalized_def Let_def)

lemma quat_normalized_unit: "quat_length_64 a = 1 \<Longrightarrow> quat_normalized a = a"
  by (cases a) (simp add: quat_normalized_def)

lemma vector_lerp_same: "vector_lerp a a 0 = a"
  by (cases a) (simp add: vector_lerp_def)

subsection \<open>The example tracks\<close>

lemma example_rotation_track_facts:
  "is_initialized example_rotation_track" "m_type example_rotation_track = Rotation"
  "m_num_samples example_rotation_track \<noteq> 0" "m_sample_rate example_rotation_track \<noteq> 0"
  by (simp_all add: example_rotation_track_def is_initialized_def)

lemma example_translation_track_facts:
  "is_initialized example_translation_track" "m_type example_translation_track = Translation"
  "m_num_samples example_translation_track \<noteq> 0" "m_sample_rate example_translation_track \<noteq> 0"
  by (simp_all add: example_translation_track_def is_initialized_def)

lemma example_durations:
  "duration_of example_rotation_track = 1 / 15" "duration_of example_translation_track = 1 / 15"
  by (simp_all add: duration_of_def example_rotation_track_def example_translation_track_def)

lemma example_keys_between:
  "frame0_of example_rotation_track (1 / 60) = 0"
  "frame1_of example_rotation_track (1 / 60) = 1"
  "alpha_of example_rotation_track (1 / 60) = 1 / 2"
  "frame0_of example_translation_track (1 / 60) = 0"
  "frame1_of example_translation_track (1 / 60) = 1"
  "alpha_of example_translation_track (1 / 60) = 1 / 2"
  by (simp_all add: frame0_of_def frame1_of_def alpha_of_def sample_key_of_def clamp_def
      example_durations)
    (simp_all add: example_rotation_track_def example_translation_track_def)

lemma example_samples:
  "rotation_sample example_rotation_track 0 = (0, 0, 0, 1)"
  "rotation_sample example_rotation_track (Suc 0) = (0, 1, 0, 0)"
  "rotation_sample example_rotation_track 2 = (1, 0, 0, 0)"
  "translation_sample example_translation_track 0 = (0, 0, 0, 0)"
  "translation_sample example_translation_track (Suc 0) = (1, 0, 0, 0)"
  "translation_sample example_translation_track 2 = (2, 0, 0, 0)"
  by (simp_all add: rotation_sample_def translation_sample_def quat_unaligned_load_def
      vector_unaligned_load3_def example_rotation_track_def example_translation_track_def)

lemma example_last_frames:
  "last_frame example_rotation_track = 2" "last_frame example_translation_track = 2"
  by (simp_all add: last_frame_def example_rotation_track_def example_translation_track_def)

lemma example_zero_rate_track_facts:
  "is_initialized single_sample_zero_rate_track"
  "m_type single_sample_zero_rate_track = Translation"
  "m_num_samples single_sample_zero_rate_track = 1"
  "m_sample_rate single_sample_zero_rate_track = 0"
  by (simp_all add: single_sample_zero_rate_track_def is_initialized_def)

lemma example_rotation_between:
  "quat_lerp (0, 0, 0, 1) (0, 1, 0, 0) (1 / 2) = Inr (0, sqrt 2 / 2, 0, sqrt 2 / 2)"
proof -
  have s: "sqrt (1 / 2) = sqrt 2 / 2"
    by (simp add: real_sqrt_divide real_div_sqrt)
  have "sqrt 2 / 2 \<noteq> 0"
    by simp
  moreover have "1 / 2 / (sqrt 2 / 2) = sqrt 2 / 2"
    by (simp add: real_div_sqrt)
  ultimately show ?thesis
    by (simp add: quat_lerp_def Let_def s)
qed

lemma example_last_rotation_unit:
  "quat_length_64 (rotation_sample example_rotation_track (last_frame example_rotation_track)) = 1"
  by (simp add: example_last_frames example_samples quat_length_64_def)

subsection \<open>Sampling a track\<close>

text \<open>
  C8 (sampling a track), as the claim states it, at three initialized tracks. At the
  rotation track without samples, whatever frames are computed, the index check of
  \<open>get_sample\<close> fails, so \<open>sample_track\<close> returns no value. At the translation
  track with one sample and the sample rate 0, the duration is the quotient of 0 by 0: not
  a number, so there is no interval to clamp the time to. At the rotation track with the
  three samples, halfway between the first two, (0, 0, 0, 1) and (0, 1, 0, 0),
  \<open>sample_track\<close> returns (0, sqrt 2 / 2, 0, sqrt 2 / 2), their interpolation
  scaled to the length 1, and not their linear interpolation (0, 1 / 2, 0, 1 / 2).
\<close>

theorem sample_track_not_plain_lerp:
  "is_initialized empty_rotation_track
   \<and> m_type empty_rotation_track = Rotation
   \<and> rotation_sample_track empty_rotation_track 0 = Inl ACL_ENSURE_failed
   \<and> is_initialized single_sample_zero_rate_track
   \<and> m_type single_sample_zero_rate_track = Translation
   \<and> translation_sample_track single_sample_zero_rate_track 0 = Inl Division_by_zero
   \<and> is_initialized example_rotation_track
   \<and> m_type example_rotation_track = Rotation
   \<and> rotation_sample_track example_rotation_track (1 / 60) = Inr (0, sqrt 2 / 2, 0, sqrt 2 / 2)
   \<and> vector_lerp (rotation_sample example_rotation_track 0)
        (rotation_sample example_rotation_track 1) (1 / 2) = (0, 1 / 2, 0, 1 / 2)
   \<and> sqrt 2 / 2 \<noteq> (1 / 2 :: real)"
proof -
  have e: "rotation_sample_track empty_rotation_track 0 = Inl ACL_ENSURE_failed"
    by (simp add: empty_rotation_track_def is_initialized_def rotation_sample_track_def
        rotation_get_sample_def Let_def split: prod.splits)
  have z: "translation_sample_track single_sample_zero_rate_track 0 = Inl Division_by_zero"
    by (simp add: single_sample_zero_rate_track_def translation_sample_track_def)
  have b: "rotation_sample_track example_rotation_track (1 / 60)
            = Inr (0, sqrt 2 / 2, 0, sqrt 2 / 2)"
    using rotation_sample_track_lerp [OF example_rotation_track_facts, of "1 / 60"]
    by (simp add: example_keys_between example_samples example_rotation_between)
  have l: "vector_lerp (rotation_sample example_rotation_track 0)
        (rotation_sample example_rotation_track 1) (1 / 2) = (0, 1 / 2, 0, 1 / 2)"
    by (simp add: example_samples vector_lerp_def)
  have "sqrt 2 \<noteq> 1"
    by simp
  then have ne: "sqrt 2 / 2 \<noteq> (1 / 2 :: real)"
    by simp
  have i: "is_initialized empty_rotation_track" "m_type empty_rotation_track = Rotation"
    "is_initialized single_sample_zero_rate_track"
    "m_type single_sample_zero_rate_track = Translation"
    by (simp_all add: is_initialized_def empty_rotation_track_def
        single_sample_zero_rate_track_def)
  from e z b l ne i show ?thesis
    by (simp add: example_rotation_track_facts)
qed

text \<open>
  C8 (sampling a track), amended. For every initialized rotation or translation track
  with at least one sample and a non-zero sample rate, and every sample time \<open>t\<close>:
  with the duration \<open>(num_samples - 1) / sample_rate\<close> and \<open>t\<close> clamped to
  \<open>[0, duration]\<close>, \<open>sample_track\<close> interpolates the samples at the frames
  \<open>floor(t * sample_rate)\<close> and the next one (the last one at most), with the
  fractional part of \<open>t * sample_rate\<close> as weight. For a translation track the result
  is the linear interpolation; for a rotation track it is \<open>quat_lerp\<close> of the two
  samples, the linear interpolation towards the second sample, negated when the dot product
  of the two is negative, scaled to the length 1. For every \<open>t\<close> from the duration on,
  a translation track returns its last sample and a rotation track its last sample scaled to
  the length 1 (which fails for the zero quaternion): the last sample itself when it has the
  length 1.
\<close>

theorem sample_track_clamped_lerp:
  assumes "is_initialized rot" and "m_type rot = Rotation"
    and "m_num_samples rot \<noteq> 0" and "m_sample_rate rot \<noteq> 0"
    and "is_initialized tra" and "m_type tra = Translation"
    and "m_num_samples tra \<noteq> 0" and "m_sample_rate tra \<noteq> 0"
  shows "rotation_sample_track rot t =
           quat_lerp (rotation_sample rot (frame0_of rot t))
             (rotation_sample rot (frame1_of rot t)) (alpha_of rot t)
    \<and> translation_sample_track tra t =
           Inr (vector_lerp (translation_sample tra (frame0_of tra t))
                  (translation_sample tra (frame1_of tra t)) (alpha_of tra t))
    \<and> (duration_of rot \<le> t \<longrightarrow>
           rotation_sample_track rot t =
             (if quat_length_64 (rotation_sample rot (last_frame rot)) = 0
              then Inl Division_by_zero
              else Inr (quat_normalized (rotation_sample rot (last_frame rot)))))
    \<and> (duration_of rot \<le> t \<and> quat_length_64 (rotation_sample rot (last_frame rot)) = 1 \<longrightarrow>
           rotation_sample_track rot t = Inr (rotation_sample rot (last_frame rot)))
    \<and> (duration_of tra \<le> t \<longrightarrow>
           translation_sample_track tra t = Inr (translation_sample tra (last_frame tra)))"
  using rotation_sample_track_lerp [OF assms(1-4), of t]
    translation_sample_track_lerp [OF assms(5-8), of t]
    keys_past_the_end [OF assms(3,4), of t] keys_past_the_end [OF assms(7,8), of t]
  by (simp add: quat_lerp_same vector_lerp_same quat_normalized_unit)

theorem sample_track_clamped_lerp_witness:
  "is_initialized example_rotation_track \<and> m_type example_rotation_track = Rotation
   \<and> m_num_samples example_rotation_track \<noteq> 0 \<and> m_sample_rate example_rotation_track \<noteq> 0
   \<and> is_initialized example_translation_track \<and> m_type example_translation_track = Translation
   \<and> m_num_samples example_translation_track \<noteq> 0
   \<and> m_sample_rate example_translation_track \<noteq> 0
   \<and> rotation_sample_track example_rotation_track (1 / 60) = Inr (0, sqrt 2 / 2, 0, sqrt 2 / 2)
   \<and> translation_sample_track example_translation_track (1 / 60) = Inr (1 / 2, 0, 0, 0)
   \<and> duration_of example_rotation_track \<le> 1 / 15 + 1 / 10
   \<and> duration_of example_translation_track \<le> 1 / 15 + 1 / 10
   \<and> quat_length_64 (rotation_sample example_rotation_track (last_frame example_rotation_track)) = 1
   \<and> rotation_sample_track example_rotation_track (1 / 15 + 1 / 10) = Inr (1, 0, 0, 0)
   \<and> translation_sample_track example_translation_track (1 / 15 + 1 / 10) = Inr (2, 0, 0, 0)"
proof -
  note between = sample_track_clamped_lerp
    [OF example_rotation_track_facts example_translation_track_facts, of "1 / 60"]
  note past = sample_track_clamped_lerp
    [OF example_rotation_track_facts example_translation_track_facts, of "1 / 15 + 1 / 10"]
  have "rotation_sample_track example_rotation_track (1 / 60) = Inr (0, sqrt 2 / 2, 0, sqrt 2 / 2)"
    and "translation_sample_track example_translation_track (1 / 60) = Inr (1 / 2, 0, 0, 0)"
    using between
    by (simp_all add: example_keys_between example_samples example_rotation_between vector_lerp_def)
  moreover have "rotation_sample_track example_rotation_track (1 / 15 + 1 / 10) = Inr (1, 0, 0, 0)"
    using past [THEN conjunct2, THEN conjunct2, THEN conjunct2, THEN conjunct1]
      example_last_rotation_unit
    by (simp add: example_durations example_last_frames example_samples)
  moreover have "translation_sample_track example_translation_track (1 / 15 + 1 / 10) = Inr (2, 0, 0, 0)"
    using past [THEN conjunct2, THEN conjunct2, THEN conjunct2, THEN conjunct2]
    by (simp add: example_durations example_last_frames example_samples)
  ultimately show ?thesis
    using example_last_rotation_unit
    by (simp add: example_rotation_track_facts example_translation_track_facts example_durations)
qed

section \<open>Properties of the decoder\<close>

lemma decode_bones_nth:
  "i < length bones \<Longrightarrow>
   decode_bones codec artifact keys cur bones ! i =
     (let c = skip_bones artifact cur (take i bones)
      in (decode_rotation codec artifact keys c (bones ! i),
          decode_translation codec artifact keys (skip_rotation artifact c (bones ! i)) (bones ! i)))"
proof (induction bones arbitrary: cur i)
  case Nil
  then show ?case by simp
next
  case (Cons bone bones)
  show ?case
  proof (cases i)
    case 0
    then show ?thesis by (simp add: Let_def)
  next
    case (Suc j)
    with Cons.prems have "j < length bones" by simp
    from Cons.IH [OF this] Suc show ?thesis by (simp add: Let_def)
  qed
qed

lemma example_seek: "seek example_artifact 0 = (0, 1, 0)"
  by (simp add: seek_def example_artifact_def calculate_interpolation_keys_def clamp_def Let_def)

lemma example_skip: "skip_bones example_artifact (0, 0, 0) [0 ..< 1] = (12, 0, 8)"
  by (simp add: skip_rotation_def skip_translation_def example_artifact_def rotation_bit_def
      translation_bit_def Let_def)

lemma example_bone:
  "decompress_bone example_codec example_artifact 0 1 =
     Some (Unpacked [7, 14, 21, 28],
           Interpolated (Unpacked [40, 45, 50, 55, 60, 65, 70, 75, 80, 85, 90, 95])
             (Unpacked [201, 203, 205, 207, 209, 211, 213, 215, 217, 219, 221, 223]) 0)"
  unfolding decompress_bone_def Let_def example_seek example_skip
  by (simp add: decode_rotation_def decode_translation_def skip_rotation_def read_bytes_def
      rotation_bit_def translation_bit_def Let_def example_codec_def example_artifact_def)

text \<open>
  C9 (seek equivalence). For every artifact, every sample time and every bone index below
  the number of bones, \<open>decompress_bone\<close> yields the rotation and the translation that
  \<open>decompress_pose\<close> delivers for that bone: the same values, and for an artifact that
  fails the validation of the header the same failure.
\<close>

theorem decompress_bone_is_pose_component:
  assumes "bone < unat (header_num_bones (artifact_header artifact))"
  shows "decompress_bone codec artifact t bone =
           map_option (\<lambda>pose. pose ! bone) (decompress_pose codec artifact t)"
  using assms decode_bones_nth [of bone "[0 ..< unat (header_num_bones (artifact_header artifact))]"
      codec artifact "seek artifact t" "(0, 0, 0)"]
  by (simp add: decompress_bone_def decompress_pose_def Let_def take_upt)

theorem decompress_bone_is_pose_component_witness:
  "1 < unat (header_num_bones (artifact_header example_artifact))
   \<and> decompress_bone example_codec example_artifact 0 1 =
       Some (Unpacked [7, 14, 21, 28],
             Interpolated (Unpacked [40, 45, 50, 55, 60, 65, 70, 75, 80, 85, 90, 95])
               (Unpacked [201, 203, 205, 207, 209, 211, 213, 215, 217, 219, 221, 223]) 0)
   \<and> map_option (\<lambda>pose. pose ! 1) (decompress_pose example_codec example_artifact 0) =
       Some (Unpacked [7, 14, 21, 28],
             Interpolated (Unpacked [40, 45, 50, 55, 60, 65, 70, 75, 80, 85, 90, 95])
               (Unpacked [201, 203, 205, 207, 209, 211, 213, 215, 217, 219, 221, 223]) 0)"
proof -
  have h: "1 < unat (header_num_bones (artifact_header example_artifact))"
    by (simp add: example_artifact_def)
  from decompress_bone_is_pose_component [OF h, of example_codec 0] example_bone h show ?thesis
    by simp
qed

end
